theory Spec2Isabelle
  imports Complex_Main
begin

section \<open>Data model of the OCPI client (CpoOCPIClient.ts)\<close>

text \<open>
  A JavaScript \<open>Date\<close> is a number of milliseconds since the epoch; JavaScript numbers
  (energy, prices) are modelled as reals, their rounding is not part of any property below.
\<close>

type_synonym time = int

type_synonym charging_period = "time \<times> real"

datatype OCPISessionStatus = ACTIVE | COMPLETED | INVALID | PENDING

datatype OCPIAuthMethod = AUTH_REQUEST | WHITELIST

datatype OCPIEvseStatus =
  AVAILABLE | BLOCKED | CHARGING | INOPERATIVE | OUTOFORDER | PLANNED | REMOVED | RESERVED | UNKNOWN

text \<open>An EVSE of a location; \<open>evse_status\<close> is \<open>None\<close> when the field is absent.\<close>

record OCPIEvse =
  uid :: string
  evse_id :: string
  evse_status :: "OCPIEvseStatus option"
  chargeBoxId :: string

record OCPILocation =
  location_id :: string
  location_name :: string
  evses :: "OCPIEvse list option"

record OCPIToken =
  token_uid :: string
  token_auth_id :: string

record OCPISession =
  session_id :: string
  start_datetime :: time
  end_datetime :: "time option"
  kwh :: real
  total_cost :: real
  auth_method :: OCPIAuthMethod
  auth_id :: string
  location :: OCPILocation
  currency :: string
  status :: OCPISessionStatus
  authorization_id :: string
  last_updated :: "time option"
  charging_periods :: "charging_period list option"

text \<open>The \<open>Partial<OCPISession>\<close> sent by \<open>updateSession\<close>.\<close>

record OCPISessionPatch =
  patch_kwh :: real
  patch_last_updated :: "time option"
  patch_total_cost :: real
  patch_currency :: string
  patch_status :: OCPISessionStatus
  patch_charging_periods :: "charging_period list option"

record OCPICdr =
  cdr_id :: string
  cdr_start_date_time :: time
  cdr_stop_date_time :: "time option"
  cdr_total_parking_time :: real
  cdr_total_time :: real
  cdr_total_energy :: real
  cdr_total_cost :: real
  cdr_currency :: string
  cdr_auth_id :: string
  cdr_authorization_id :: string
  cdr_auth_method :: OCPIAuthMethod
  cdr_location :: OCPILocation
  cdr_charging_periods :: "charging_period list"
  cdr_last_updated :: "time option"

record TransactionStop =
  stop_timestamp :: "time option"
  totalConsumptionWh :: real
  roundedPrice :: real
  totalInactivitySecs :: real
  totalDurationSecs :: real

record OcpiData =
  session :: "OCPISession option"
  cdr :: "OCPICdr option"
  sessionCheckedOn :: "time option"
  cdrCheckedOn :: "time option"

record Transaction =
  transaction_id :: nat
  chargeBoxID :: string
  connectorId :: nat
  timestamp :: time
  currentTotalConsumptionWh :: real
  currentTimestamp :: time
  currentCumulatedPrice :: real
  priceUnit :: string
  stop :: "TransactionStop option"
  ocpiData :: "OcpiData option"

subsection \<open>The remote partner\<close>

datatype http_method = GET | POST | PUT | PATCH

datatype request_body =
  NoBody
| SessionBody OCPISession
| SessionPatchBody OCPISessionPatch
| CdrBody OCPICdr
| StatusBody OCPIEvseStatus

text \<open>
  One call through \<open>axiosInstance\<close>: the method, the URL, the body and the
  \<open>Authorization\<close> token of the headers.
\<close>

record request =
  req_method :: http_method
  req_url :: string
  req_body :: request_body
  req_token :: string

text \<open>
  \<open>response.data.data\<close>: absent, a token array, or some other JSON object (a session, a
  CDR, a location).
\<close>

datatype response_payload = Tokens "OCPIToken list" | Entity

record ocpi_body =
  status_code :: "int option"
  body_data :: "response_payload option"

text \<open>
  An \<open>AxiosResponse\<close>: \<open>response.status\<close>, \<open>response.data\<close> (\<open>None\<close> when falsy) and
  the next URL that \<open>OCPIUtils.getNextUrl\<close> reads from \<open>response.headers.link\<close>.
\<close>

record response =
  resp_status :: nat
  resp_data :: "ocpi_body option"
  resp_next :: "string option"

text \<open>
  The partner answers a request with a response, or the call is rejected by axios
  (\<open>None\<close>), in which case \<open>Utils.handleAxiosError\<close> raises.
\<close>

type_synonym remote = "request \<Rightarrow> response option"

text \<open>
  The exceptions: a \<open>BackendError\<close> thrown by the client with its message (the fixed
  text of the message template), the failure of an HTTP call (raised through
  \<open>Utils.handleAxiosError\<close>, or the rejection itself where the call is not wrapped) with
  the URL, and the \<open>TypeError\<close> of iterating a value that is no array.
\<close>

datatype error =
  BackendError string
| AxiosError string
| TypeError

fun error_message :: "error \<Rightarrow> string" where
  "error_message (BackendError m) = m"
| "error_message (AxiosError u) = u"
| "error_message TypeError = ''not iterable''"

text \<open>What \<open>getEndpointUrl\<close>, \<open>getLocalCountryCode\<close> and \<open>getLocalPartyID\<close> return
  for this client, and the token of its endpoint.\<close>

record OCPIClient =
  tokens_endpoint :: string
  sessions_endpoint :: string
  cdrs_endpoint :: string
  locations_endpoint :: string
  localCountryCode :: string
  localPartyID :: string
  endpoint_token :: string

text \<open>
  Every operation on a transaction returns its result (\<open>Inl\<close> an exception), the
  transaction as the operation leaves it, and the remote calls it made, in order.
\<close>

type_synonym 'a tx_outcome = "(error + 'a) \<times> Transaction \<times> request list"

section \<open>Session lifecycle\<close>

definition sessionUrl :: "OCPIClient \<Rightarrow> string \<Rightarrow> string" where
  "sessionUrl cl sid =
     sessions_endpoint cl @ ''/'' @ localCountryCode cl @ ''/'' @ localPartyID cl @ ''/'' @ sid"

definition buildStartSession :: "OCPILocation \<Rightarrow> OCPIToken \<Rightarrow> Transaction \<Rightarrow> string \<Rightarrow> OCPISession" where
  "buildStartSession ocpiLocation ocpiToken transaction authorizationId =
     \<lparr> session_id = authorizationId,
       start_datetime = timestamp transaction,
       end_datetime = None,
       kwh = 0,
       total_cost = currentCumulatedPrice transaction,
       auth_method = AUTH_REQUEST,
       auth_id = token_auth_id ocpiToken,
       location = ocpiLocation,
       currency = priceUnit transaction,
       status = PENDING,
       authorization_id = authorizationId,
       last_updated = Some (timestamp transaction),
       charging_periods = None \<rparr>"

text \<open>
  \<open>startSession\<close>. \<open>ocpiLocation\<close> is what \<open>OCPIMapping.convertChargingStationToOCPILocation\<close>
  returns for the site and charging station of the transaction.
\<close>

definition startSession ::
  "OCPIClient \<Rightarrow> remote \<Rightarrow> OCPILocation \<Rightarrow> OCPIToken \<Rightarrow> Transaction \<Rightarrow> string \<Rightarrow> unit tx_outcome" where
  "startSession cl remote ocpiLocation ocpiToken transaction authorizationId =
     (let sessionsUrl = sessionUrl cl authorizationId;
          ocpiSession = buildStartSession ocpiLocation ocpiToken transaction authorizationId;
          req = \<lparr> req_method = PUT, req_url = sessionsUrl, req_body = SessionBody ocpiSession,
                  req_token = endpoint_token cl \<rparr>
      in case remote req of
           None \<Rightarrow> (Inl (AxiosError sessionsUrl), transaction, [req])
         | Some resp \<Rightarrow>
             (Inr (),
              transaction \<lparr> ocpiData := Some \<lparr> session = Some ocpiSession, cdr = None,
                                               sessionCheckedOn = None, cdrCheckedOn = None \<rparr> \<rparr>,
              [req]))"

text \<open>
  \<open>updateSession\<close>. \<open>periods\<close> is what \<open>OCPIMapping.buildChargingPeriods\<close> returns for the
  transaction. The session of the transaction is updated before the remote call.
\<close>

definition updateSession ::
  "OCPIClient \<Rightarrow> remote \<Rightarrow> charging_period list \<Rightarrow> Transaction \<Rightarrow> unit tx_outcome" where
  "updateSession cl remote periods transaction =
     (case ocpiData transaction of
        None \<Rightarrow> (Inl (BackendError ''OCPI Session not started''), transaction, [])
      | Some od \<Rightarrow>
          (case session od of
             None \<Rightarrow> (Inl (BackendError ''OCPI Session not started''), transaction, [])
           | Some s \<Rightarrow>
               (let sessionsUrl = sessionUrl cl (session_id s);
                    s' = s \<lparr> kwh := currentTotalConsumptionWh transaction / 1000,
                            last_updated := Some (currentTimestamp transaction),
                            total_cost := currentCumulatedPrice transaction,
                            currency := priceUnit transaction,
                            status := ACTIVE,
                            charging_periods := Some periods \<rparr>;
                    transaction' = transaction \<lparr> ocpiData := Some (od \<lparr> session := Some s' \<rparr>) \<rparr>;
                    patchBody = \<lparr> patch_kwh = kwh s',
                                  patch_last_updated = last_updated s',
                                  patch_total_cost = total_cost s',
                                  patch_currency = currency s',
                                  patch_status = status s',
                                  patch_charging_periods = charging_periods s' \<rparr>;
                    req = \<lparr> req_method = PATCH, req_url = sessionsUrl,
                            req_body = SessionPatchBody patchBody, req_token = endpoint_token cl \<rparr>
                in case remote req of
                     None \<Rightarrow> (Inl (AxiosError sessionsUrl), transaction', [req])
                   | Some resp \<Rightarrow>
                       if resp_status resp \<noteq> 200 \<or> resp_data resp = None
                       then (Inl (BackendError ''Patch Session failed with status''), transaction', [req])
                       else (Inr (), transaction', [req]))))"

definition stopSession ::
  "OCPIClient \<Rightarrow> remote \<Rightarrow> charging_period list \<Rightarrow> Transaction \<Rightarrow> unit tx_outcome" where
  "stopSession cl remote periods transaction =
     (case ocpiData transaction of
        None \<Rightarrow> (Inl (BackendError ''OCPI Session not started''), transaction, [])
      | Some od \<Rightarrow>
          (case session od of
             None \<Rightarrow> (Inl (BackendError ''OCPI Session not started''), transaction, [])
           | Some s \<Rightarrow>
               (case stop transaction of
                  None \<Rightarrow> (Inl (BackendError ''Transaction not stopped''), transaction, [])
                | Some st \<Rightarrow>
                    (let tokensUrl = sessionUrl cl (session_id s);
                         s' = s \<lparr> kwh := totalConsumptionWh st / 1000,
                                 total_cost := roundedPrice st,
                                 end_datetime := stop_timestamp st,
                                 last_updated := stop_timestamp st,
                                 status := COMPLETED,
                                 charging_periods := Some periods \<rparr>;
                         transaction' = transaction \<lparr> ocpiData := Some (od \<lparr> session := Some s' \<rparr>) \<rparr>;
                         req = \<lparr> req_method = PUT, req_url = tokensUrl,
                                 req_body = SessionBody s', req_token = endpoint_token cl \<rparr>
                     in case remote req of
                          None \<Rightarrow> (Inl (AxiosError tokensUrl), transaction', [req])
                        | Some resp \<Rightarrow>
                            if resp_status resp \<noteq> 200 \<or> resp_data resp = None
                            then (Inl (BackendError ''Stop Session failed with status''), transaction', [req])
                            else (Inr (), transaction', [req])))))"

section \<open>CDR exchange\<close>

definition buildCdr :: "charging_period list \<Rightarrow> Transaction \<Rightarrow> OCPISession \<Rightarrow> TransactionStop \<Rightarrow> OCPICdr" where
  "buildCdr periods transaction s st =
     \<lparr> cdr_id = session_id s,
       cdr_start_date_time = timestamp transaction,
       cdr_stop_date_time = stop_timestamp st,
       cdr_total_parking_time = totalInactivitySecs st,
       cdr_total_time = totalDurationSecs st / 3600,
       cdr_total_energy = totalConsumptionWh st / 1000,
       cdr_total_cost = (if roundedPrice st > 0 then roundedPrice st else 0),
       cdr_currency = priceUnit transaction,
       cdr_auth_id = auth_id s,
       cdr_authorization_id = authorization_id s,
       cdr_auth_method = auth_method s,
       cdr_location = location s,
       cdr_charging_periods = periods,
       cdr_last_updated = stop_timestamp st \<rparr>"

definition postCdr ::
  "OCPIClient \<Rightarrow> remote \<Rightarrow> charging_period list \<Rightarrow> Transaction \<Rightarrow> unit tx_outcome" where
  "postCdr cl remote periods transaction =
     (case ocpiData transaction of
        None \<Rightarrow> (Inl (BackendError ''Session not started''), transaction, [])
      | Some od \<Rightarrow>
          (case session od of
             None \<Rightarrow> (Inl (BackendError ''Session not started''), transaction, [])
           | Some s \<Rightarrow>
               (case stop transaction of
                  None \<Rightarrow> (Inl (BackendError ''Transaction not stopped''), transaction, [])
                | Some st \<Rightarrow>
                    (let cdrsUrl = cdrs_endpoint cl;
                         c = buildCdr periods transaction s st;
                         transaction' = transaction \<lparr> ocpiData := Some (od \<lparr> cdr := Some c \<rparr>) \<rparr>;
                         req = \<lparr> req_method = POST, req_url = cdrsUrl,
                                 req_body = CdrBody c, req_token = endpoint_token cl \<rparr>
                     in case remote req of
                          None \<Rightarrow> (Inl (AxiosError cdrsUrl), transaction', [req])
                        | Some resp \<Rightarrow>
                            if resp_status resp \<noteq> 200 \<or> resp_data resp = None
                            then (Inl (BackendError ''Post cdr failed with status''), transaction', [req])
                            else (Inr (), transaction', [req])))))"

text \<open>
  \<open>checkCdr\<close>. \<open>now\<close> is the \<open>new Date()\<close> of the confirmation; the transaction returned
  in the confirmed case is the one given to \<open>TransactionStorage.saveTransaction\<close>.
\<close>

definition checkCdr :: "OCPIClient \<Rightarrow> remote \<Rightarrow> time \<Rightarrow> Transaction \<Rightarrow> bool tx_outcome" where
  "checkCdr cl remote now transaction =
     (case ocpiData transaction of
        None \<Rightarrow> (Inl (BackendError ''Unable to check cdr for transaction, ocpi data are missing''), transaction, [])
      | Some od \<Rightarrow>
          (case cdr od of
             None \<Rightarrow> (Inl (BackendError ''Unable to check cdr for transaction, ocpi data are missing''), transaction, [])
           | Some c \<Rightarrow>
               (let cdrsUrl = cdrs_endpoint cl;
                    get = \<lparr> req_method = GET, req_url = cdrsUrl @ ''/'' @ cdr_id c,
                            req_body = NoBody, req_token = endpoint_token cl \<rparr>
                in case remote get of
                     None \<Rightarrow> (Inl (AxiosError (cdrsUrl @ ''/'' @ cdr_id c)), transaction, [get])
                   | Some resp \<Rightarrow>
                       (case resp_data resp of
                          None \<Rightarrow> (Inl (BackendError ''Invalid response from Check cdr''), transaction, [get])
                        | Some b \<Rightarrow>
                            if resp_status resp = 200 then
                              if status_code b = Some 3001 then
                                (let post = \<lparr> req_method = POST, req_url = cdrsUrl,
                                               req_body = CdrBody c, req_token = endpoint_token cl \<rparr>
                                 in case remote post of
                                      None \<Rightarrow> (Inl (AxiosError cdrsUrl), transaction, [get, post])
                                    | Some r \<Rightarrow> (Inr False, transaction, [get, post]))
                              else if body_data b \<noteq> None then
                                (Inr True,
                                 transaction \<lparr> ocpiData := Some (od \<lparr> cdrCheckedOn := Some now \<rparr>) \<rparr>,
                                 [get])
                              else (Inl (BackendError ''Invalid response from Check cdr''), transaction, [get])
                            else (Inl (BackendError ''Invalid response from Check cdr''), transaction, [get])))))"

definition checkSession :: "OCPIClient \<Rightarrow> remote \<Rightarrow> time \<Rightarrow> Transaction \<Rightarrow> bool tx_outcome" where
  "checkSession cl remote now transaction =
     (case ocpiData transaction of
        None \<Rightarrow> (Inl (BackendError ''Unable to check session for transaction, ocpi data are missing''), transaction, [])
      | Some od \<Rightarrow>
          (case session od of
             None \<Rightarrow> (Inl (BackendError ''Unable to check session for transaction, ocpi data are missing''), transaction, [])
           | Some s \<Rightarrow>
               (let sessionsUrl = sessionUrl cl (session_id s);
                    get = \<lparr> req_method = GET, req_url = sessionsUrl,
                            req_body = NoBody, req_token = endpoint_token cl \<rparr>
                in case remote get of
                     None \<Rightarrow> (Inl (AxiosError sessionsUrl), transaction, [get])
                   | Some resp \<Rightarrow>
                       (case resp_data resp of
                          None \<Rightarrow> (Inl (BackendError ''Invalid response from Check session''), transaction, [get])
                        | Some b \<Rightarrow>
                            if resp_status resp = 200 \<and> body_data b \<noteq> None then
                              (Inr True,
                               transaction \<lparr> ocpiData := Some (od \<lparr> sessionCheckedOn := Some now \<rparr>) \<rparr>,
                               [get])
                            else (Inl (BackendError ''Invalid response from Check session''), transaction, [get])))))"

section \<open>Locations and EVSE statuses\<close>

definition evseUrl :: "OCPIClient \<Rightarrow> string \<Rightarrow> string \<Rightarrow> string" where
  "evseUrl cl locationId evseUID =
     locations_endpoint cl @ ''/'' @ localCountryCode cl @ ''/'' @ localPartyID cl @ ''/'' @ locationId
       @ ''/'' @ evseUID"

text \<open>\<open>patchEVSEStatus\<close>: the result and the remote calls made.\<close>

definition patchEVSEStatus ::
  "OCPIClient \<Rightarrow> remote \<Rightarrow> string \<Rightarrow> string \<Rightarrow> OCPIEvseStatus option \<Rightarrow> (error + unit) \<times> request list" where
  "patchEVSEStatus cl remote locationId evseUID newStatus =
     (case newStatus of
        None \<Rightarrow> (Inl (BackendError ''Invalid parameters''), [])
      | Some st \<Rightarrow>
          if locationId = [] \<or> evseUID = [] then (Inl (BackendError ''Invalid parameters''), [])
          else
            (let fullUrl = evseUrl cl locationId evseUID;
                 req = \<lparr> req_method = PATCH, req_url = fullUrl, req_body = StatusBody st,
                         req_token = endpoint_token cl \<rparr>
             in case remote req of
                  None \<Rightarrow> (Inl (AxiosError fullUrl), [req])
                | Some resp \<Rightarrow>
                    if resp_data resp = None
                    then (Inl (BackendError ''Patch EVSE Status failed with status''), [req])
                    else (Inr (), [req])))"

definition locationUrl :: "OCPIClient \<Rightarrow> string \<Rightarrow> string" where
  "locationUrl cl locationId =
     locations_endpoint cl @ ''/'' @ localCountryCode cl @ ''/'' @ localPartyID cl @ ''/'' @ locationId"

definition checkLocation :: "OCPIClient \<Rightarrow> remote \<Rightarrow> OCPILocation \<Rightarrow> (error + bool) \<times> request list" where
  "checkLocation cl remote loc =
     (let url = locationUrl cl (location_id loc);
          get = \<lparr> req_method = GET, req_url = url, req_body = NoBody, req_token = endpoint_token cl \<rparr>
      in case remote get of
           None \<Rightarrow> (Inl (AxiosError url), [get])
         | Some resp \<Rightarrow>
             (case resp_data resp of
                None \<Rightarrow> (Inl (BackendError ''Invalid response from Check location''), [get])
              | Some b \<Rightarrow>
                  if resp_status resp = 200 \<and> body_data b \<noteq> None then (Inr True, [get])
                  else (Inl (BackendError ''Invalid response from Check location''), [get])))"

section \<open>Batch jobs\<close>

text \<open>
  What a job does that can be observed from outside, in order: a remote call, a call of
  \<open>OCPITokensService.updateToken\<close>, a notification sent to the administrators for a
  location, and the release of a lock.
\<close>

datatype event =
  Remote request
| UpdateToken OCPIToken
| Notification string
| LockReleased string

record JobCounters =
  success :: nat
  failure :: nat
  total :: nat
  logs :: "string list"

record OCPIJobResult = JobCounters +
  objectIDsInFailure :: "string list"
  objectIDsInSuccess :: "string list"

record EVSEJobResult = JobCounters +
  chargeBoxIDsInFailure :: "string list"
  chargeBoxIDsInSuccess :: "string list"

definition emptyJobResult :: OCPIJobResult where
  "emptyJobResult =
     \<lparr> success = 0, failure = 0, total = 0, logs = [], objectIDsInFailure = [], objectIDsInSuccess = [] \<rparr>"

text \<open>\<open>String(n)\<close> of a natural number.\<close>

fun string_of_nat :: "nat \<Rightarrow> string" where
  "string_of_nat n =
     (if n < 10 then [''0123456789'' ! n]
      else string_of_nat (n div 10) @ [''0123456789'' ! (n mod 10)])"

declare string_of_nat.simps [simp del]

text \<open>
  The bookkeeping shared by the three reconciliation sweeps: the outcome of checking the
  item \<open>oid\<close>, with the log line for an exception starting with \<open>what\<close>.
\<close>

definition recordCheck :: "string \<Rightarrow> string \<Rightarrow> error + bool \<Rightarrow> OCPIJobResult \<Rightarrow> OCPIJobResult" where
  "recordCheck what oid r result =
     (case r of
        Inr True \<Rightarrow>
          result \<lparr> success := success result + 1,
                   objectIDsInSuccess := objectIDsInSuccess result @ [oid] \<rparr>
      | Inr False \<Rightarrow>
          result \<lparr> failure := failure result + 1,
                   objectIDsInFailure := objectIDsInFailure result @ [oid] \<rparr>
      | Inl e \<Rightarrow>
          result \<lparr> failure := failure result + 1,
                   objectIDsInFailure := objectIDsInFailure result @ [oid],
                   logs := logs result @ [what @ oid @ '':'' @ error_message e] \<rparr>)"

text \<open>
  The loop of \<open>checkCdrs\<close> over the transactions read from the storage: the job result,
  the transactions as the sweep leaves them, and the events.
\<close>

fun checkCdrs_loop ::
  "OCPIClient \<Rightarrow> remote \<Rightarrow> time \<Rightarrow> Transaction list \<Rightarrow> OCPIJobResult \<Rightarrow>
   OCPIJobResult \<times> Transaction list \<times> event list" where
  "checkCdrs_loop cl remote now [] result = (result, [], [])"
| "checkCdrs_loop cl remote now (transaction # rest) result =
     (let checked = checkCdr cl remote now transaction;
          result1 = recordCheck ''Failure checking cdr for transaction:''
                      (string_of_nat (transaction_id transaction)) (fst checked) result;
          result2 = result1 \<lparr> total := total result1 + 1 \<rparr>;
          swept = checkCdrs_loop cl remote now rest result2
      in (fst swept, fst (snd checked) # fst (snd swept),
          map Remote (snd (snd checked)) @ snd (snd swept)))"

definition checkCdrs ::
  "OCPIClient \<Rightarrow> remote \<Rightarrow> time \<Rightarrow> Transaction list \<Rightarrow> OCPIJobResult \<times> Transaction list \<times> event list" where
  "checkCdrs cl remote now transactions = checkCdrs_loop cl remote now transactions emptyJobResult"

fun checkSessions_loop ::
  "OCPIClient \<Rightarrow> remote \<Rightarrow> time \<Rightarrow> Transaction list \<Rightarrow> OCPIJobResult \<Rightarrow>
   OCPIJobResult \<times> Transaction list \<times> event list" where
  "checkSessions_loop cl remote now [] result = (result, [], [])"
| "checkSessions_loop cl remote now (transaction # rest) result =
     (if (case stop transaction of None \<Rightarrow> False | Some st \<Rightarrow> stop_timestamp st \<noteq> None) then
        (let checked = checkSession cl remote now transaction;
             result1 = recordCheck ''Failure checking session for transaction:''
                         (string_of_nat (transaction_id transaction)) (fst checked) result;
             result2 = result1 \<lparr> total := total result1 + 1 \<rparr>;
             swept = checkSessions_loop cl remote now rest result2
         in (fst swept, fst (snd checked) # fst (snd swept),
             map Remote (snd (snd checked)) @ snd (snd swept)))
      else
        (let swept = checkSessions_loop cl remote now rest (result \<lparr> total := total result + 1 \<rparr>)
         in (fst swept, transaction # fst (snd swept), snd (snd swept))))"

definition checkSessions ::
  "OCPIClient \<Rightarrow> remote \<Rightarrow> time \<Rightarrow> Transaction list \<Rightarrow> OCPIJobResult \<times> Transaction list \<times> event list" where
  "checkSessions cl remote now transactions = checkSessions_loop cl remote now transactions emptyJobResult"

text \<open>The locations of \<open>OCPIMapping.getAllLocations\<close>; an entry may be null.\<close>

fun checkLocations_loop ::
  "OCPIClient \<Rightarrow> remote \<Rightarrow> OCPILocation option list \<Rightarrow> OCPIJobResult \<Rightarrow> OCPIJobResult \<times> event list" where
  "checkLocations_loop cl remote [] result = (result, [])"
| "checkLocations_loop cl remote (None # rest) result =
     checkLocations_loop cl remote rest (result \<lparr> total := total result + 1 \<rparr>)"
| "checkLocations_loop cl remote (Some loc # rest) result =
     (let checked = checkLocation cl remote loc;
          result1 = recordCheck ''Failure checking location '' (location_id loc) (fst checked) result;
          result2 = result1 \<lparr> total := total result1 + 1 \<rparr>;
          swept = checkLocations_loop cl remote rest result2
      in (fst swept, map Remote (snd checked) @ snd swept))"

definition checkLocations ::
  "OCPIClient \<Rightarrow> remote \<Rightarrow> OCPILocation option list \<Rightarrow> OCPIJobResult \<times> event list" where
  "checkLocations cl remote locations = checkLocations_loop cl remote locations emptyJobResult"

section \<open>Token synchronisation\<close>

text \<open>
  \<open>moment().utc().subtract(1, 'days').startOf('day')\<close> at the time \<open>now\<close>: one day
  (86400000 ms) back, then down to the start of that UTC day.
\<close>

definition momentFrom :: "time \<Rightarrow> time" where
  "momentFrom now = ((now - 86400000) div 86400000) * 86400000"

text \<open>
  The URL of the first page; \<open>format\<close> is \<open>moment\<close>'s \<open>format()\<close> of a time.
\<close>

definition initialTokensUrl :: "(time \<Rightarrow> string) \<Rightarrow> OCPIClient \<Rightarrow> bool \<Rightarrow> time \<Rightarrow> string" where
  "initialTokensUrl format cl partial now =
     (if partial then tokens_endpoint cl @ ''?date_from='' @ format (momentFrom now) @ ''&limit=100''
      else tokens_endpoint cl @ ''?limit=100'')"

text \<open>
  The loop over the tokens of one page. \<open>updateToken\<close> stands for
  \<open>OCPITokensService.updateToken\<close>: \<open>None\<close> when it returns, the message of the error
  when it throws.
\<close>

fun updateTokens :: "(OCPIToken \<Rightarrow> string option) \<Rightarrow> OCPIToken list \<Rightarrow> JobCounters \<Rightarrow> JobCounters" where
  "updateTokens updateToken [] sendResult = sendResult"
| "updateTokens updateToken (token # rest) sendResult =
     updateTokens updateToken rest
       (case updateToken token of
          None \<Rightarrow>
            sendResult \<lparr> success := success sendResult + 1,
                         logs := logs sendResult @ [''Token '' @ token_uid token @ '' successfully updated''] \<rparr>
        | Some msg \<Rightarrow>
            sendResult \<lparr> failure := failure sendResult + 1,
                         logs := logs sendResult @ [''Failure updating token:'' @ token_uid token @ '':'' @ msg] \<rparr>)"

definition tokensRequest :: "OCPIClient \<Rightarrow> string \<Rightarrow> request" where
  "tokensRequest cl tokensUrl =
     \<lparr> req_method = GET, req_url = tokensUrl, req_body = NoBody, req_token = endpoint_token cl \<rparr>"

text \<open>
  One turn of the \<open>while\<close> loop of \<open>pullTokens\<close> at the page \<open>tokensUrl\<close>: either the job
  ends (\<open>Inl\<close>, with an exception or with the result), or the loop goes on at the next
  URL (\<open>Inr\<close>); together with the events of the turn.
\<close>

definition pullTokens_page ::
  "OCPIClient \<Rightarrow> remote \<Rightarrow> (OCPIToken \<Rightarrow> string option) \<Rightarrow> string \<Rightarrow> JobCounters \<Rightarrow>
   ((error + JobCounters) + (string \<times> JobCounters)) \<times> event list" where
  "pullTokens_page cl remote updateToken tokensUrl sendResult =
     (let req = tokensRequest cl tokensUrl
      in case remote req of
           None \<Rightarrow> (Inl (Inl (AxiosError tokensUrl)), [Remote req])
         | Some resp \<Rightarrow>
             (case resp_data resp of
                None \<Rightarrow> (Inl (Inl (BackendError ''Invalid response code from Pull tokens'')), [Remote req])
              | Some b \<Rightarrow>
                  if resp_status resp \<noteq> 200
                  then (Inl (Inl (BackendError ''Invalid response code from Pull tokens'')), [Remote req])
                  else
                    (case body_data b of
                       None \<Rightarrow> (Inl (Inl (BackendError ''Invalid response from Pull tokens'')), [Remote req])
                     | Some Entity \<Rightarrow> (Inl (Inl TypeError), [Remote req])
                     | Some (Tokens tokens) \<Rightarrow>
                         (let sendResult' = updateTokens updateToken tokens sendResult;
                              evs = Remote req # map UpdateToken tokens
                          in case resp_next resp of
                               None \<Rightarrow> (Inl (Inr sendResult'), evs)
                             | Some nextUrl \<Rightarrow>
                                 if nextUrl \<noteq> [] \<and> nextUrl \<noteq> tokensUrl
                                 then (Inr (nextUrl, sendResult'), evs)
                                 else (Inl (Inr sendResult'), evs)))))"

text \<open>
  The \<open>while\<close> loop. It need not end (a partner may link two pages to each other), which
  is the value \<open>None\<close>.
\<close>

partial_function (option) pullTokens_loop ::
  "OCPIClient \<Rightarrow> remote \<Rightarrow> (OCPIToken \<Rightarrow> string option) \<Rightarrow> string \<Rightarrow> JobCounters \<Rightarrow> event list \<Rightarrow>
   ((error + JobCounters) \<times> event list) option" where
  "pullTokens_loop cl remote updateToken tokensUrl sendResult evs =
     (case pullTokens_page cl remote updateToken tokensUrl sendResult of
        (Inl final, es) \<Rightarrow> Some (final, evs @ es)
      | (Inr (nextUrl, sendResult'), es) \<Rightarrow>
          pullTokens_loop cl remote updateToken nextUrl sendResult' (evs @ es))"

definition pullTokens ::
  "OCPIClient \<Rightarrow> remote \<Rightarrow> (OCPIToken \<Rightarrow> string option) \<Rightarrow> (time \<Rightarrow> string) \<Rightarrow> time \<Rightarrow> bool \<Rightarrow>
   ((error + JobCounters) \<times> event list) option" where
  "pullTokens cl remote updateToken format now partial =
     pullTokens_loop cl remote updateToken (initialTokensUrl format cl partial now)
       \<lparr> success = 0, failure = 0, total = 0, logs = [] \<rparr> []"

section \<open>Status broadcast\<close>

datatype OCPIRegistrationStatus = NEW | REGISTERED | UNREGISTERED

record PatchJobResult =
  successNbr :: nat
  failureNbr :: nat
  totalNbr :: nat
  last_chargeBoxIDsInFailure :: "string list option"
  last_chargeBoxIDsInSuccess :: "string list"

record OCPIEndpoint =
  endpoint_id :: string
  endpoint_name :: string
  registration :: OCPIRegistrationStatus
  backgroundPatchJob :: bool
  lastPatchJobOn :: "time option"
  lastPatchJobResult :: "PatchJobResult option"

record StatusNotification =
  sn_timestamp :: time
  sn_chargeBoxID :: string

record 'a DataResult =
  dr_count :: int
  dr_result :: "'a list"

text \<open>
  Modelled from the spec: \<open>OCPPStorage.getStatusNotifications\<close> is not part of the sources.
  The spec has it return the status notifications "recorded since" the date given as
  \<open>dateFrom\<close>; \<open>stored\<close> are the notifications of the storage.
\<close>

definition getStatusNotifications :: "StatusNotification list \<Rightarrow> time \<Rightarrow> StatusNotification DataResult" where
  "getStatusNotifications stored dateFrom =
     (let found = filter (\<lambda>n. dateFrom \<le> sn_timestamp n) stored
      in \<lparr> dr_count = int (length found), dr_result = found \<rparr>)"

text \<open>\<open>_.uniq\<close>: the first occurrence of every element, in order.\<close>

fun uniq :: "'a list \<Rightarrow> 'a list" where
  "uniq [] = []"
| "uniq (x # xs) = x # filter (\<lambda>y. y \<noteq> x) (uniq xs)"

definition getChargeBoxIDsInFailure :: "OCPIEndpoint \<Rightarrow> string list" where
  "getChargeBoxIDsInFailure ocpiEndpoint =
     (case lastPatchJobResult ocpiEndpoint of
        None \<Rightarrow> []
      | Some r \<Rightarrow> (case last_chargeBoxIDsInFailure r of None \<Rightarrow> [] | Some ids \<Rightarrow> ids))"

text \<open>
  \<open>query\<close> is the storage's \<open>getStatusNotifications\<close> as a function of \<open>dateFrom\<close>, and
  \<open>now\<close> the \<open>new Date()\<close> taken when the endpoint has no \<open>lastPatchJobOn\<close>.
\<close>

definition getChargeBoxIDsWithNewStatusNotifications ::
  "(time \<Rightarrow> StatusNotification DataResult) \<Rightarrow> time \<Rightarrow> OCPIEndpoint \<Rightarrow> string list" where
  "getChargeBoxIDsWithNewStatusNotifications query now ocpiEndpoint =
     (let lastPatchJobOn = (case lastPatchJobOn ocpiEndpoint of Some t \<Rightarrow> t | None \<Rightarrow> now);
          statusNotificationsResult = query lastPatchJobOn
      in if dr_count statusNotificationsResult > 0
         then map sn_chargeBoxID (dr_result statusNotificationsResult)
         else [])"

definition chargeBoxIDsToProcess ::
  "(time \<Rightarrow> StatusNotification DataResult) \<Rightarrow> time \<Rightarrow> OCPIEndpoint \<Rightarrow> bool \<Rightarrow> string list" where
  "chargeBoxIDsToProcess query now ocpiEndpoint processAllEVSEs =
     (if \<not> processAllEVSEs
      then uniq (getChargeBoxIDsInFailure ocpiEndpoint
                 @ getChargeBoxIDsWithNewStatusNotifications query now ocpiEndpoint)
      else [])"

definition emptySendResult :: EVSEJobResult where
  "emptySendResult =
     \<lparr> success = 0, failure = 0, total = 0, logs = [],
       chargeBoxIDsInFailure = [], chargeBoxIDsInSuccess = [] \<rparr>"

text \<open>The bookkeeping of \<open>sendEVSEStatuses\<close> for the outcome of one patch.\<close>

definition recordPatch :: "OCPILocation \<Rightarrow> OCPIEvse \<Rightarrow> error + unit \<Rightarrow> EVSEJobResult \<Rightarrow> EVSEJobResult" where
  "recordPatch loc evse r sendResult =
     (case r of
        Inr u \<Rightarrow>
          sendResult \<lparr> success := success sendResult + 1,
                       chargeBoxIDsInSuccess := chargeBoxIDsInSuccess sendResult @ [chargeBoxId evse],
                       logs := logs sendResult @
                         [''Updated successfully status for locationID:'' @ location_id loc
                           @ '' - evseID:'' @ evse_id evse] \<rparr>
      | Inl e \<Rightarrow>
          sendResult \<lparr> failure := failure sendResult + 1,
                       chargeBoxIDsInFailure := chargeBoxIDsInFailure sendResult @ [chargeBoxId evse],
                       logs := logs sendResult @
                         [''Failure updating status for locationID:'' @ location_id loc
                           @ '' - evseID:'' @ evse_id evse @ '':'' @ error_message e] \<rparr>)"

text \<open>The notification sent to the administrators once the job has a failure.\<close>

definition patchNotification :: "OCPILocation \<Rightarrow> EVSEJobResult \<Rightarrow> event list" where
  "patchNotification loc sendResult =
     (if failure sendResult > 0 then [Notification (location_name loc)] else [])"

text \<open>The inner loop of \<open>sendEVSEStatuses\<close>, over the EVSEs of one location.\<close>

fun sendEVSEs_loop ::
  "OCPIClient \<Rightarrow> remote \<Rightarrow> bool \<Rightarrow> string list \<Rightarrow> OCPILocation \<Rightarrow> OCPIEvse list \<Rightarrow> EVSEJobResult \<Rightarrow>
   EVSEJobResult \<times> event list" where
  "sendEVSEs_loop cl remote processAllEVSEs ids loc [] sendResult = (sendResult, [])"
| "sendEVSEs_loop cl remote processAllEVSEs ids loc (evse # rest) sendResult =
     (let counted = sendResult \<lparr> total := total sendResult + 1 \<rparr>
      in if \<not> processAllEVSEs \<and> chargeBoxId evse \<notin> set ids
         then sendEVSEs_loop cl remote processAllEVSEs ids loc rest counted
         else if location_id loc \<noteq> [] \<and> uid evse \<noteq> [] then
           (let attempt = patchEVSEStatus cl remote (location_id loc) (uid evse) (evse_status evse);
                patched = recordPatch loc evse (fst attempt) counted;
                swept = sendEVSEs_loop cl remote processAllEVSEs ids loc rest patched
            in (fst swept, map Remote (snd attempt) @ patchNotification loc patched @ snd swept))
         else sendEVSEs_loop cl remote processAllEVSEs ids loc rest counted)"

text \<open>The outer loop, over the locations; an entry may be null or have no EVSEs.\<close>

fun sendLocations_loop ::
  "OCPIClient \<Rightarrow> remote \<Rightarrow> bool \<Rightarrow> string list \<Rightarrow> OCPILocation option list \<Rightarrow> EVSEJobResult \<Rightarrow>
   EVSEJobResult \<times> event list" where
  "sendLocations_loop cl remote processAllEVSEs ids [] sendResult = (sendResult, [])"
| "sendLocations_loop cl remote processAllEVSEs ids (None # rest) sendResult =
     sendLocations_loop cl remote processAllEVSEs ids rest sendResult"
| "sendLocations_loop cl remote processAllEVSEs ids (Some loc # rest) sendResult =
     (case evses loc of
        None \<Rightarrow> sendLocations_loop cl remote processAllEVSEs ids rest sendResult
      | Some es \<Rightarrow>
          (let here = sendEVSEs_loop cl remote processAllEVSEs ids loc es sendResult;
               swept = sendLocations_loop cl remote processAllEVSEs ids rest (fst here)
           in (fst swept, snd here @ snd swept)))"

text \<open>
  \<open>sendEVSEStatuses\<close>. \<open>allLocations\<close> is what \<open>OCPIMapping.getAllLocations\<close> gives (it may
  throw), \<open>startDate\<close> the time at which the job starts. The endpoint returned is the one
  saved at the end of the job.
\<close>

definition sendEVSEStatuses ::
  "OCPIClient \<Rightarrow> remote \<Rightarrow> (time \<Rightarrow> StatusNotification DataResult) \<Rightarrow> error + OCPILocation option list \<Rightarrow>
   time \<Rightarrow> time \<Rightarrow> OCPIEndpoint \<Rightarrow> bool \<Rightarrow> (error + EVSEJobResult) \<times> OCPIEndpoint \<times> event list" where
  "sendEVSEStatuses cl remote query allLocations startDate now ocpiEndpoint processAllEVSEs =
     (let ids = chargeBoxIDsToProcess query now ocpiEndpoint processAllEVSEs
      in case allLocations of
           Inl e \<Rightarrow> (Inl e, ocpiEndpoint, [])
         | Inr locations \<Rightarrow>
             (case sendLocations_loop cl remote processAllEVSEs ids locations emptySendResult of
                (sendResult, evs) \<Rightarrow>
                  (Inr sendResult,
                   ocpiEndpoint
                     \<lparr> lastPatchJobOn := Some startDate,
                       lastPatchJobResult := Some
                         \<lparr> successNbr = success sendResult,
                           failureNbr = failure sendResult,
                           totalNbr = total sendResult,
                           last_chargeBoxIDsInFailure = Some (uniq (chargeBoxIDsInFailure sendResult)),
                           last_chargeBoxIDsInSuccess = uniq (chargeBoxIDsInSuccess sendResult) \<rparr> \<rparr>,
                   evs)))"

section \<open>The scheduled task (OCPIPushLocationsTask.ts)\<close>

text \<open>
  The body of the \<open>try\<close> block of \<open>processOCPIEndpoint\<close>: the endpoint as the block leaves
  it and the events. \<open>client\<close> is what \<open>OCPIClientFactory.getCpoOcpiClient\<close> gives (it may
  throw), \<open>config\<close> the \<open>processAllEVSEs\<close> of the task configuration when it is defined. An
  exception is caught and logged.
\<close>

definition pushLocations ::
  "error + OCPIClient \<Rightarrow> remote \<Rightarrow> (time \<Rightarrow> StatusNotification DataResult) \<Rightarrow>
   error + OCPILocation option list \<Rightarrow> time \<Rightarrow> time \<Rightarrow> OCPIEndpoint \<Rightarrow> bool option \<Rightarrow>
   OCPIEndpoint \<times> event list" where
  "pushLocations client remote query allLocations startDate now ocpiEndpoint config =
     (if registration ocpiEndpoint \<noteq> REGISTERED then (ocpiEndpoint, [])
      else if \<not> backgroundPatchJob ocpiEndpoint then (ocpiEndpoint, [])
      else
        (case client of
           Inl e \<Rightarrow> (ocpiEndpoint, [])
         | Inr ocpiClient \<Rightarrow>
             (case sendEVSEStatuses ocpiClient remote query allLocations startDate now ocpiEndpoint
                     (case config of Some b \<Rightarrow> b | None \<Rightarrow> False) of
                (r, ocpiEndpoint', evs) \<Rightarrow> (ocpiEndpoint', evs))))"

text \<open>
  \<open>processOCPIEndpoint\<close>. \<open>ocpiLock\<close> is what
  \<open>LockingHelper.createOCPIEndpointActionLock\<close> returns for the endpoint and the action
  \<open>patch-locations\<close>: the lock taken, or null. The \<open>finally\<close> block releases the lock.
\<close>

definition processOCPIEndpoint ::
  "string option \<Rightarrow> error + OCPIClient \<Rightarrow> remote \<Rightarrow> (time \<Rightarrow> StatusNotification DataResult) \<Rightarrow>
   error + OCPILocation option list \<Rightarrow> time \<Rightarrow> time \<Rightarrow> OCPIEndpoint \<Rightarrow> bool option \<Rightarrow>
   OCPIEndpoint \<times> event list" where
  "processOCPIEndpoint ocpiLock client remote query allLocations startDate now ocpiEndpoint config =
     (case ocpiLock of
        None \<Rightarrow> (ocpiEndpoint, [])
      | Some lock \<Rightarrow>
          (case pushLocations client remote query allLocations startDate now ocpiEndpoint config of
             (ocpiEndpoint', evs) \<Rightarrow> (ocpiEndpoint', evs @ [LockReleased lock])))"

section \<open>Notions used to state the properties\<close>

definition sessionStarted :: "Transaction \<Rightarrow> bool" where
  "sessionStarted transaction =
     (case ocpiData transaction of None \<Rightarrow> False | Some od \<Rightarrow> session od \<noteq> None)"

text \<open>The two calls of \<open>checkCdr\<close> for the CDR \<open>c\<close>.\<close>

definition cdrGetRequest :: "OCPIClient \<Rightarrow> OCPICdr \<Rightarrow> request" where
  "cdrGetRequest cl c =
     \<lparr> req_method = GET, req_url = cdrs_endpoint cl @ ''/'' @ cdr_id c, req_body = NoBody,
       req_token = endpoint_token cl \<rparr>"

definition cdrPostRequest :: "OCPIClient \<Rightarrow> OCPICdr \<Rightarrow> request" where
  "cdrPostRequest cl c =
     \<lparr> req_method = POST, req_url = cdrs_endpoint cl, req_body = CdrBody c,
       req_token = endpoint_token cl \<rparr>"

text \<open>
  The answers to the GET of \<open>checkCdr\<close> that matter: the status 200 with a body whose
  status code is 3001 (the partner does not know the CDR), and the status 200 with a body
  of another status code that carries a payload.
\<close>

definition cdrUnknown :: "response option \<Rightarrow> bool" where
  "cdrUnknown answer =
     (case answer of
        None \<Rightarrow> False
      | Some resp \<Rightarrow>
          resp_status resp = 200 \<and>
          (case resp_data resp of None \<Rightarrow> False | Some b \<Rightarrow> status_code b = Some 3001))"

definition cdrConfirmed :: "response option \<Rightarrow> bool" where
  "cdrConfirmed answer =
     (case answer of
        None \<Rightarrow> False
      | Some resp \<Rightarrow>
          resp_status resp = 200 \<and>
          (case resp_data resp of
             None \<Rightarrow> False
           | Some b \<Rightarrow> status_code b \<noteq> Some 3001 \<and> body_data b \<noteq> None))"

text \<open>The sessions sent as the body of a list of calls.\<close>

fun sentSessions :: "request list \<Rightarrow> OCPISession list" where
  "sentSessions [] = []"
| "sentSessions (c # cs) =
     (case req_body c of SessionBody s \<Rightarrow> s # sentSessions cs | _ \<Rightarrow> sentSessions cs)"

text \<open>The remote calls among the events of a job.\<close>

fun remoteCalls :: "event list \<Rightarrow> request list" where
  "remoteCalls [] = []"
| "remoteCalls (Remote c # evs) = c # remoteCalls evs"
| "remoteCalls (e # evs) = remoteCalls evs"

text \<open>The events of a job itself: all but the release of a lock.\<close>

fun jobEvent :: "event \<Rightarrow> bool" where
  "jobEvent (LockReleased l) = False"
| "jobEvent e = True"

text \<open>
  A page of tokens as the partner serves it: its URL, its tokens and the next link of
  its response. The partner serves the page when it answers the GET at the URL with the
  status 200, a body with these tokens, and this next link.
\<close>

record token_page =
  page_url :: string
  page_tokens :: "OCPIToken list"
  page_next :: "string option"

definition servesPage :: "OCPIClient \<Rightarrow> remote \<Rightarrow> token_page \<Rightarrow> bool" where
  "servesPage cl remote p =
     (case remote (tokensRequest cl (page_url p)) of
        None \<Rightarrow> False
      | Some resp \<Rightarrow>
          resp_status resp = 200 \<and> resp_next resp = page_next p \<and>
          (case resp_data resp of
             None \<Rightarrow> False
           | Some b \<Rightarrow> body_data b = Some (Tokens (page_tokens p))))"

text \<open>
  A finite sequence of pages: every page but the last links to the next one, at a URL
  that is not empty and not its own, and the last page has no next link, an empty one,
  or its own URL.
\<close>

fun servesPages :: "OCPIClient \<Rightarrow> remote \<Rightarrow> token_page list \<Rightarrow> bool" where
  "servesPages cl remote [] = False"
| "servesPages cl remote [p] =
     (servesPage cl remote p \<and>
      (page_next p = None \<or> page_next p = Some [] \<or> page_next p = Some (page_url p)))"
| "servesPages cl remote (p # q # ps) =
     (servesPage cl remote p \<and> page_next p = Some (page_url q) \<and> page_url q \<noteq> []
      \<and> page_url q \<noteq> page_url p \<and> servesPages cl remote (q # ps))"

text \<open>The events of a page: the GET of the page, then the update of each of its tokens.\<close>

definition pageEvents :: "OCPIClient \<Rightarrow> token_page \<Rightarrow> event list" where
  "pageEvents cl p = Remote (tokensRequest cl (page_url p)) # map UpdateToken (page_tokens p)"

text \<open>The EVSEs of all locations, each with its location, in the order in which the job visits them.\<close>

definition allEVSEs :: "OCPILocation option list \<Rightarrow> (OCPILocation \<times> OCPIEvse) list" where
  "allEVSEs locations =
     concat (map (\<lambda>l. case l of
                         None \<Rightarrow> []
                       | Some loc \<Rightarrow> (case evses loc of None \<Rightarrow> [] | Some es \<Rightarrow> map (Pair loc) es))
                 locations)"

text \<open>
  The EVSEs that a run takes: all of them in a full run, those of the charge points
  \<open>ids\<close> in a delta run, but only with a location id and a \<open>uid\<close>.
\<close>

definition taken :: "bool \<Rightarrow> string list \<Rightarrow> OCPILocation \<times> OCPIEvse \<Rightarrow> bool" where
  "taken processAllEVSEs ids le =
     ((processAllEVSEs \<or> chargeBoxId (snd le) \<in> set ids)
      \<and> location_id (fst le) \<noteq> [] \<and> uid (snd le) \<noteq> [])"

text \<open>The PATCH of the status of an EVSE; there is none for an EVSE without status.\<close>

definition patchRequests :: "OCPIClient \<Rightarrow> OCPILocation \<times> OCPIEvse \<Rightarrow> request list" where
  "patchRequests cl le =
     (case evse_status (snd le) of
        None \<Rightarrow> []
      | Some st \<Rightarrow>
          [\<lparr> req_method = PATCH, req_url = evseUrl cl (location_id (fst le)) (uid (snd le)),
             req_body = StatusBody st, req_token = endpoint_token cl \<rparr>])"

subsection \<open>Sample values\<close>

definition sample_client :: OCPIClient where
  "sample_client =
     \<lparr> tokens_endpoint = ''https://iop/tokens'', sessions_endpoint = ''https://iop/sessions'',
       cdrs_endpoint = ''https://iop/cdrs'', locations_endpoint = ''https://iop/locations'',
       localCountryCode = ''FR'', localPartyID = ''SLF'', endpoint_token = ''secret'' \<rparr>"

definition sample_location :: OCPILocation where
  "sample_location = \<lparr> location_id = ''site1'', location_name = ''Site 1'', evses = None \<rparr>"

definition sample_token :: OCPIToken where
  "sample_token = \<lparr> token_uid = ''TAG1'', token_auth_id = ''AUTH1'' \<rparr>"

text \<open>A transaction that was neither started on the partner's side nor stopped, with a
  price of 5 already.\<close>

definition sample_transaction :: Transaction where
  "sample_transaction =
     \<lparr> transaction_id = 42, chargeBoxID = ''CP1'', connectorId = 1, timestamp = 1000,
       currentTotalConsumptionWh = 1500, currentTimestamp = 2000, currentCumulatedPrice = 5,
       priceUnit = ''EUR'', stop = None, ocpiData = None \<rparr>"

definition sample_stop :: TransactionStop where
  "sample_stop =
     \<lparr> stop_timestamp = Some 3000, totalConsumptionWh = 2000, roundedPrice = 7,
       totalInactivitySecs = 0, totalDurationSecs = 7200 \<rparr>"

text \<open>A partner answering every call with the status 500 and no body.\<close>

definition remote_500 :: remote where
  "remote_500 req = Some \<lparr> resp_status = 500, resp_data = None, resp_next = None \<rparr>"

text \<open>The sample transaction once started with the authorization \<open>A1\<close>, and stopped.\<close>

definition started_transaction :: Transaction where
  "started_transaction =
     sample_transaction
       \<lparr> stop := Some sample_stop,
         ocpiData := Some \<lparr> session = Some (buildStartSession sample_location sample_token sample_transaction ''A1''),
                            cdr = None, sessionCheckedOn = None, cdrCheckedOn = None \<rparr> \<rparr>"

text \<open>The CDR of the stopped sample transaction, and the transaction once it is posted.\<close>

definition sample_cdr :: OCPICdr where
  "sample_cdr =
     buildCdr [] started_transaction
       (buildStartSession sample_location sample_token sample_transaction ''A1'') sample_stop"

definition billed_transaction :: Transaction where
  "billed_transaction =
     started_transaction
       \<lparr> ocpiData := Some \<lparr> session = Some (buildStartSession sample_location sample_token sample_transaction ''A1''),
                            cdr = Some sample_cdr, sessionCheckedOn = None, cdrCheckedOn = None \<rparr> \<rparr>"

text \<open>A partner that does not know any CDR (status code 3001) and rejects every POST.\<close>

definition remote_unknown_cdr :: remote where
  "remote_unknown_cdr req =
     (if req_method req = GET
      then Some \<lparr> resp_status = 200,
                  resp_data = Some \<lparr> status_code = Some 3001, body_data = None \<rparr>,
                  resp_next = None \<rparr>
      else None)"

text \<open>A partner that answers with the HTTP status 201 and the status code 3001.\<close>

definition remote_created_3001 :: remote where
  "remote_created_3001 req =
     Some \<lparr> resp_status = 201,
            resp_data = Some \<lparr> status_code = Some 3001, body_data = None \<rparr>,
            resp_next = None \<rparr>"

text \<open>A partner that answers every call with the status 200, the status code 1000 and a
  payload.\<close>

definition remote_ok :: remote where
  "remote_ok req =
     Some \<lparr> resp_status = 200,
            resp_data = Some \<lparr> status_code = Some 1000, body_data = Some Entity \<rparr>,
            resp_next = None \<rparr>"

text \<open>A format that prints a time as its number of milliseconds.\<close>

definition sample_format :: "time \<Rightarrow> string" where
  "sample_format t = string_of_nat (nat t)"

text \<open>An endpoint that never ran the status broadcast, and one that ran it at the time
  1000 and failed for the charge point \<open>A\<close>.\<close>

definition first_endpoint :: OCPIEndpoint where
  "first_endpoint =
     \<lparr> endpoint_id = ''ep1'', endpoint_name = ''Partner'', registration = REGISTERED,
       backgroundPatchJob = True, lastPatchJobOn = None, lastPatchJobResult = None \<rparr>"

definition delta_endpoint :: OCPIEndpoint where
  "delta_endpoint =
     first_endpoint
       \<lparr> lastPatchJobOn := Some 1000,
         lastPatchJobResult := Some
           \<lparr> successNbr = 2, failureNbr = 1, totalNbr = 3,
             last_chargeBoxIDsInFailure = Some [''A''],
             last_chargeBoxIDsInSuccess = [''B'', ''C''] \<rparr> \<rparr>"

text \<open>The status notifications stored: one for \<open>C\<close> at 500, one for \<open>B\<close> at 1500.\<close>

definition stored_notifications :: "StatusNotification list" where
  "stored_notifications =
     [\<lparr> sn_timestamp = 500, sn_chargeBoxID = ''C'' \<rparr>,
      \<lparr> sn_timestamp = 1500, sn_chargeBoxID = ''B'' \<rparr>]"

text \<open>Three EVSEs of the charge points \<open>A\<close>, \<open>B\<close> and \<open>C\<close> at one location, and an EVSE of
  \<open>A\<close> that has no \<open>uid\<close>.\<close>

definition evse_A :: OCPIEvse where
  "evse_A = \<lparr> uid = ''A*1'', evse_id = ''FR*SLF*EA*1'', evse_status = Some AVAILABLE, chargeBoxId = ''A'' \<rparr>"

definition evse_B :: OCPIEvse where
  "evse_B = \<lparr> uid = ''B*1'', evse_id = ''FR*SLF*EB*1'', evse_status = Some CHARGING, chargeBoxId = ''B'' \<rparr>"

definition evse_C :: OCPIEvse where
  "evse_C = \<lparr> uid = ''C*1'', evse_id = ''FR*SLF*EC*1'', evse_status = Some AVAILABLE, chargeBoxId = ''C'' \<rparr>"

definition evse_blank :: OCPIEvse where
  "evse_blank = \<lparr> uid = [], evse_id = ''FR*SLF*EA*2'', evse_status = Some AVAILABLE, chargeBoxId = ''A'' \<rparr>"

definition sample_locations :: "OCPILocation option list" where
  "sample_locations =
     [Some \<lparr> location_id = ''site1'', location_name = ''Site 1'',
             evses = Some [evse_A, evse_B, evse_C] \<rparr>]"

definition blank_locations :: "OCPILocation option list" where
  "blank_locations =
     [Some \<lparr> location_id = ''site1'', location_name = ''Site 1'', evses = Some [evse_blank] \<rparr>]"

text \<open>An endpoint that is not registered.\<close>

definition new_endpoint :: OCPIEndpoint where
  "new_endpoint = first_endpoint \<lparr> registration := NEW \<rparr>"

text \<open>Two pages of tokens: the first links to the second, the second to itself.\<close>

definition page_1 :: token_page where
  "page_1 =
     \<lparr> page_url = ''https://iop/tokens?limit=100'',
       page_tokens = [\<lparr> token_uid = ''T1'', token_auth_id = ''U1'' \<rparr>,
                      \<lparr> token_uid = ''T2'', token_auth_id = ''U2'' \<rparr>],
       page_next = Some ''https://iop/tokens?offset=100'' \<rparr>"

definition page_2 :: token_page where
  "page_2 =
     \<lparr> page_url = ''https://iop/tokens?offset=100'',
       page_tokens = [\<lparr> token_uid = ''T3'', token_auth_id = ''U3'' \<rparr>],
       page_next = Some ''https://iop/tokens?offset=100'' \<rparr>"

definition remote_pages :: remote where
  "remote_pages req =
     (if req_url req = page_url page_1 then
        Some \<lparr> resp_status = 200,
               resp_data = Some \<lparr> status_code = Some 1000, body_data = Some (Tokens (page_tokens page_1)) \<rparr>,
               resp_next = page_next page_1 \<rparr>
      else if req_url req = page_url page_2 then
        Some \<lparr> resp_status = 200,
               resp_data = Some \<lparr> status_code = Some 1000, body_data = Some (Tokens (page_tokens page_2)) \<rparr>,
               resp_next = page_next page_2 \<rparr>
      else None)"

text \<open>An update of tokens that fails for the token \<open>T2\<close> only.\<close>

definition update_but_T2 :: "OCPIToken \<Rightarrow> string option" where
  "update_but_T2 token = (if token_uid token = ''T2'' then Some ''no user'' else None)"

text \<open>A partner whose page \<open>A\<close> links to the page \<open>B\<close>, and every other page to \<open>A\<close>.\<close>

definition remote_cycle :: remote where
  "remote_cycle req =
     Some \<lparr> resp_status = 200,
            resp_data = Some \<lparr> status_code = Some 1000, body_data = Some (Tokens []) \<rparr>,
            resp_next = Some (if req_url req = ''A'' then ''B'' else ''A'') \<rparr>"

section \<open>Verified properties\<close>

subsection \<open>Preconditions of the session lifecycle\<close>

text \<open>
  C4. On a transaction whose OCPI data hold no session, \<open>updateSession\<close> and
  \<open>stopSession\<close> (and \<open>postCdr\<close>) raise the error of the precondition, leave the
  transaction as it is and make no remote call. On a transaction with no stop record,
  \<open>stopSession\<close> and \<open>postCdr\<close> raise an error of a precondition before any remote call.
\<close>

theorem precondition_before_remote_call:
  "(\<not> sessionStarted transaction \<longrightarrow>
      updateSession cl remote periods transaction
        = (Inl (BackendError ''OCPI Session not started''), transaction, [])
    \<and> stopSession cl remote periods transaction
        = (Inl (BackendError ''OCPI Session not started''), transaction, [])
    \<and> postCdr cl remote periods transaction
        = (Inl (BackendError ''Session not started''), transaction, []))
   \<and> (stop transaction = None \<longrightarrow>
      (\<exists>m. stopSession cl remote periods transaction = (Inl (BackendError m), transaction, []))
    \<and> (\<exists>m. postCdr cl remote periods transaction = (Inl (BackendError m), transaction, [])))"
  by (auto simp: sessionStarted_def updateSession_def stopSession_def postCdr_def
           split: option.splits)

theorem precondition_before_remote_call_witness:
  "\<not> sessionStarted sample_transaction \<and> stop sample_transaction = None
   \<and> updateSession sample_client remote_500 [] sample_transaction
        = (Inl (BackendError ''OCPI Session not started''), sample_transaction, [])
   \<and> stopSession sample_client remote_500 [] sample_transaction
        = (Inl (BackendError ''OCPI Session not started''), sample_transaction, [])
   \<and> postCdr sample_client remote_500 [] sample_transaction
        = (Inl (BackendError ''Session not started''), sample_transaction, [])"
  using precondition_before_remote_call
    [where transaction = sample_transaction and cl = sample_client and remote = remote_500
       and periods = "[]"]
  by (simp add: sessionStarted_def sample_transaction_def)

subsection \<open>The session built by startSession\<close>

text \<open>
  C6, as the code has it. \<open>startSession\<close> makes one call, a PUT at the URL of the
  authorization id, whose body is a session in the state PENDING, with no energy
  (\<open>kwh = 0\<close>), with the current cumulated price of the transaction as its cost, and with
  the authorization id as its \<open>id\<close> and as its \<open>authorization_id\<close>.
\<close>

theorem startSession_request:
  "map req_method (snd (snd (startSession cl remote ocpiLocation ocpiToken transaction authorizationId))) = [PUT]
   \<and> map req_url (snd (snd (startSession cl remote ocpiLocation ocpiToken transaction authorizationId)))
       = [sessionUrl cl authorizationId]
   \<and> (\<exists>s. sentSessions (snd (snd (startSession cl remote ocpiLocation ocpiToken transaction authorizationId))) = [s]
       \<and> status s = PENDING \<and> kwh s = 0 \<and> total_cost s = currentCumulatedPrice transaction
       \<and> session_id s = authorizationId \<and> authorization_id s = authorizationId)"
  by (simp add: startSession_def buildStartSession_def Let_def split: option.splits)

theorem startSession_request_witness:
  "map req_method (snd (snd (startSession sample_client remote_500 sample_location sample_token sample_transaction ''A1''))) = [PUT]
   \<and> map req_url (snd (snd (startSession sample_client remote_500 sample_location sample_token sample_transaction ''A1'')))
       = [''https://iop/sessions/FR/SLF/A1'']
   \<and> (\<exists>s. sentSessions (snd (snd (startSession sample_client remote_500 sample_location sample_token sample_transaction ''A1''))) = [s]
       \<and> status s = PENDING \<and> kwh s = 0 \<and> total_cost s = 5
       \<and> session_id s = ''A1'' \<and> authorization_id s = ''A1'')"
  using startSession_request
    [where cl = sample_client and remote = remote_500 and ocpiLocation = sample_location
       and ocpiToken = sample_token and transaction = sample_transaction
       and authorizationId = "''A1''"]
  by (simp add: sessionUrl_def sample_client_def sample_transaction_def)

text \<open>
  The claim of C6 that the cost of the session is zero fails for a transaction that has a
  price when the session starts: the session sent has the cost 5.
\<close>

theorem startSession_cost_counterexample:
  "map total_cost (sentSessions (snd (snd
      (startSession sample_client remote_500 sample_location sample_token sample_transaction ''A1''))))
   \<noteq> [0]"
  by (simp add: startSession_def buildStartSession_def Let_def remote_500_def sample_transaction_def)

subsection \<open>What the session calls make of the response\<close>

text \<open>
  C10. When the PUT of \<open>startSession\<close> is answered at all, whatever the status and the
  body of the response, \<open>startSession\<close> returns normally and the OCPI data of the
  transaction hold the session built. \<open>updateSession\<close> and \<open>stopSession\<close> raise an error
  when the response to their call has a status other than 200 or has no body.
\<close>

theorem startSession_trusts_transport:
  "(remote \<lparr> req_method = PUT, req_url = sessionUrl cl authorizationId,
             req_body = SessionBody (buildStartSession ocpiLocation ocpiToken transaction authorizationId),
             req_token = endpoint_token cl \<rparr> = Some resp
      \<longrightarrow> fst (startSession cl remote ocpiLocation ocpiToken transaction authorizationId) = Inr ()
        \<and> ocpiData (fst (snd (startSession cl remote ocpiLocation ocpiToken transaction authorizationId)))
            = Some \<lparr> session = Some (buildStartSession ocpiLocation ocpiToken transaction authorizationId),
                     cdr = None, sessionCheckedOn = None, cdrCheckedOn = None \<rparr>)
   \<and> (sessionStarted transaction' \<and> snd (snd (updateSession cl remote periods transaction')) = [req]
      \<and> remote req = Some resp' \<and> (resp_status resp' \<noteq> 200 \<or> resp_data resp' = None)
      \<longrightarrow> fst (updateSession cl remote periods transaction')
            = Inl (BackendError ''Patch Session failed with status''))
   \<and> (sessionStarted transaction' \<and> snd (snd (stopSession cl remote periods transaction')) = [req']
      \<and> remote req' = Some resp' \<and> (resp_status resp' \<noteq> 200 \<or> resp_data resp' = None)
      \<longrightarrow> fst (stopSession cl remote periods transaction')
            = Inl (BackendError ''Stop Session failed with status''))"
  by (auto simp: startSession_def updateSession_def stopSession_def sessionStarted_def Let_def
           split: option.splits if_splits)

text \<open>
  With a partner that answers every call with the status 500 and no body,
  \<open>startSession\<close> succeeds while \<open>updateSession\<close> and \<open>stopSession\<close> fail.
\<close>

theorem startSession_trusts_transport_witness:
  "fst (startSession sample_client remote_500 sample_location sample_token sample_transaction ''A1'') = Inr ()
   \<and> ocpiData (fst (snd (startSession sample_client remote_500 sample_location sample_token sample_transaction ''A1'')))
        = Some \<lparr> session = Some (buildStartSession sample_location sample_token sample_transaction ''A1''),
                 cdr = None, sessionCheckedOn = None, cdrCheckedOn = None \<rparr>
   \<and> sessionStarted started_transaction
   \<and> length (snd (snd (updateSession sample_client remote_500 [] started_transaction))) = 1
   \<and> length (snd (snd (stopSession sample_client remote_500 [] started_transaction))) = 1
   \<and> fst (updateSession sample_client remote_500 [] started_transaction)
        = Inl (BackendError ''Patch Session failed with status'')
   \<and> fst (stopSession sample_client remote_500 [] started_transaction)
        = Inl (BackendError ''Stop Session failed with status'')"
proof -
  let ?r = "\<lparr> resp_status = 500, resp_data = None, resp_next = None \<rparr>"
  obtain u where u: "snd (snd (updateSession sample_client remote_500 [] started_transaction)) = [u]"
    by (simp add: updateSession_def started_transaction_def Let_def remote_500_def)
  obtain p where p: "snd (snd (stopSession sample_client remote_500 [] started_transaction)) = [p]"
    by (simp add: stopSession_def started_transaction_def Let_def remote_500_def sample_transaction_def)
  have st: "sessionStarted started_transaction"
    by (simp add: sessionStarted_def started_transaction_def)
  show ?thesis
    using startSession_trusts_transport
      [where cl = sample_client and remote = remote_500 and ocpiLocation = sample_location
         and ocpiToken = sample_token and transaction = sample_transaction
         and authorizationId = "''A1''" and resp = ?r and resp' = ?r
         and transaction' = started_transaction and periods = "[]" and req = u and req' = p]
      u p st
    by (simp add: remote_500_def)
qed

subsection \<open>Reconciliation of a CDR\<close>

text \<open>
  C3, as the code has it. For a transaction with a posted CDR, \<open>checkCdr\<close> makes the GET
  and then: when the answer has the status 200 and a body of status code 3001, it makes
  one POST of the CDR, leaves the transaction as it is, and returns false when the POST
  is answered, while the failure of the POST is raised; when the answer has the status 200
  and a body of another status code with a payload, it sets \<open>cdrCheckedOn\<close>, which is the
  transaction saved, and returns true, with no other call; in every other case it raises
  an error, with no other call.
\<close>

theorem checkCdr_cases:
  "ocpiData transaction = Some od \<Longrightarrow> cdr od = Some c \<Longrightarrow>
   (cdrUnknown (remote (cdrGetRequest cl c)) \<longrightarrow>
        snd (snd (checkCdr cl remote now transaction)) = [cdrGetRequest cl c, cdrPostRequest cl c]
      \<and> fst (snd (checkCdr cl remote now transaction)) = transaction
      \<and> (remote (cdrPostRequest cl c) \<noteq> None \<longrightarrow> fst (checkCdr cl remote now transaction) = Inr False)
      \<and> (remote (cdrPostRequest cl c) = None \<longrightarrow>
            fst (checkCdr cl remote now transaction) = Inl (AxiosError (cdrs_endpoint cl))))
   \<and> (\<not> cdrUnknown (remote (cdrGetRequest cl c)) \<and> cdrConfirmed (remote (cdrGetRequest cl c)) \<longrightarrow>
        fst (checkCdr cl remote now transaction) = Inr True
      \<and> fst (snd (checkCdr cl remote now transaction))
          = transaction \<lparr> ocpiData := Some (od \<lparr> cdrCheckedOn := Some now \<rparr>) \<rparr>
      \<and> snd (snd (checkCdr cl remote now transaction)) = [cdrGetRequest cl c])
   \<and> (\<not> cdrUnknown (remote (cdrGetRequest cl c)) \<and> \<not> cdrConfirmed (remote (cdrGetRequest cl c)) \<longrightarrow>
        isl (fst (checkCdr cl remote now transaction))
      \<and> fst (snd (checkCdr cl remote now transaction)) = transaction
      \<and> snd (snd (checkCdr cl remote now transaction)) = [cdrGetRequest cl c])"
  by (auto simp: checkCdr_def cdrUnknown_def cdrConfirmed_def cdrGetRequest_def cdrPostRequest_def
                 Let_def split: option.splits if_splits)

theorem checkCdr_cases_witness:
  "cdrUnknown (remote_unknown_cdr (cdrGetRequest sample_client sample_cdr))
   \<and> snd (snd (checkCdr sample_client remote_unknown_cdr 9000 billed_transaction))
       = [cdrGetRequest sample_client sample_cdr, cdrPostRequest sample_client sample_cdr]
   \<and> fst (checkCdr sample_client remote_unknown_cdr 9000 billed_transaction)
       = Inl (AxiosError ''https://iop/cdrs'')
   \<and> cdrConfirmed (remote_ok (cdrGetRequest sample_client sample_cdr))
   \<and> fst (checkCdr sample_client remote_ok 9000 billed_transaction) = Inr True
   \<and> map_option cdrCheckedOn (ocpiData (fst (snd (checkCdr sample_client remote_ok 9000 billed_transaction))))
       = Some (Some 9000)
   \<and> \<not> cdrUnknown (remote_500 (cdrGetRequest sample_client sample_cdr))
   \<and> \<not> cdrConfirmed (remote_500 (cdrGetRequest sample_client sample_cdr))
   \<and> isl (fst (checkCdr sample_client remote_500 9000 billed_transaction))"
proof -
  let ?od = "\<lparr> session = Some (buildStartSession sample_location sample_token sample_transaction ''A1''),
               cdr = Some sample_cdr, sessionCheckedOn = None, cdrCheckedOn = None \<rparr>"
  have od: "ocpiData billed_transaction = Some ?od"
    by (simp add: billed_transaction_def)
  have c: "cdr ?od = Some sample_cdr"
    by simp
  have unknown: "cdrUnknown (remote_unknown_cdr (cdrGetRequest sample_client sample_cdr))"
    and rejected: "remote_unknown_cdr (cdrPostRequest sample_client sample_cdr) = None"
    by (simp_all add: cdrUnknown_def remote_unknown_cdr_def cdrGetRequest_def cdrPostRequest_def)
  have confirmed: "\<not> cdrUnknown (remote_ok (cdrGetRequest sample_client sample_cdr))"
    "cdrConfirmed (remote_ok (cdrGetRequest sample_client sample_cdr))"
    by (simp_all add: cdrUnknown_def cdrConfirmed_def remote_ok_def)
  have neither: "\<not> cdrUnknown (remote_500 (cdrGetRequest sample_client sample_cdr))"
    "\<not> cdrConfirmed (remote_500 (cdrGetRequest sample_client sample_cdr))"
    by (simp_all add: cdrUnknown_def cdrConfirmed_def remote_500_def)
  have url: "cdrs_endpoint sample_client = ''https://iop/cdrs''"
    by (simp add: sample_client_def)
  show ?thesis
    using checkCdr_cases [OF od c, where cl = sample_client and remote = remote_unknown_cdr and now = 9000]
      checkCdr_cases [OF od c, where cl = sample_client and remote = remote_ok and now = 9000]
      checkCdr_cases [OF od c, where cl = sample_client and remote = remote_500 and now = 9000]
      unknown rejected confirmed neither url
    by simp
qed

text \<open>
  The claim of C3 that a status code 3001 always gives one resubmission and the result
  false fails in two ways: when the partner rejects the POST, \<open>checkCdr\<close> raises; and when
  the status code 3001 comes with an HTTP status other than 200, \<open>checkCdr\<close> raises
  without any POST.
\<close>

theorem checkCdr_resubmission_counterexample:
  "fst (checkCdr sample_client remote_unknown_cdr 9000 billed_transaction) \<noteq> Inr False
   \<and> map req_method (snd (snd (checkCdr sample_client remote_unknown_cdr 9000 billed_transaction))) = [GET, POST]
   \<and> fst (checkCdr sample_client remote_created_3001 9000 billed_transaction) \<noteq> Inr False
   \<and> map req_method (snd (snd (checkCdr sample_client remote_created_3001 9000 billed_transaction))) = [GET]"
  by (simp add: checkCdr_def billed_transaction_def remote_unknown_cdr_def remote_created_3001_def Let_def)

subsection \<open>The first page of pullTokens\<close>

text \<open>
  C7, as the code has it. For a partial pull the first URL has a \<open>date_from\<close> that is
  the start of the UTC day before the day of the call, which is at least 24 hours and
  less than 48 hours before the call (24 hours exactly for a call at midnight), and the
  page size 100; for a full pull the first URL has the page size 100 only. The loop of
  \<open>pullTokens\<close> starts at that URL with all counters at zero.
\<close>

theorem initialTokensUrl_scope:
  "initialTokensUrl format cl True now
     = tokens_endpoint cl @ ''?date_from='' @ format (momentFrom now) @ ''&limit=100''
   \<and> momentFrom now mod 86400000 = 0
   \<and> momentFrom now \<le> now - 86400000
   \<and> now - 2 * 86400000 < momentFrom now
   \<and> (now mod 86400000 = 0 \<longrightarrow> momentFrom now = now - 86400000)
   \<and> initialTokensUrl format cl False now = tokens_endpoint cl @ ''?limit=100''
   \<and> pullTokens cl remote updateToken format now partial
       = pullTokens_loop cl remote updateToken (initialTokensUrl format cl partial now)
           \<lparr> success = 0, failure = 0, total = 0, logs = [] \<rparr> []"
proof -
  have eq: "(now - 86400000) div 86400000 * 86400000
            = (now - 86400000) - (now - 86400000) mod 86400000"
    by (simp add: minus_mod_eq_div_mult [symmetric])
  have lo: "0 \<le> (now - 86400000) mod 86400000"
    and hi: "(now - 86400000) mod 86400000 < 86400000"
    by simp_all
  have "momentFrom now \<le> now - 86400000"
    unfolding momentFrom_def using eq lo by linarith
  moreover have "now - 2 * 86400000 < momentFrom now"
    unfolding momentFrom_def using eq hi by linarith
  moreover have "now mod 86400000 = 0 \<longrightarrow> momentFrom now = now - 86400000"
    unfolding momentFrom_def by (auto simp: mod_eq_0_iff_dvd)
  ultimately show ?thesis
    by (simp add: initialTokensUrl_def pullTokens_def momentFrom_def)
qed

theorem initialTokensUrl_scope_witness:
  "initialTokensUrl sample_format sample_client True 129600000
     = ''https://iop/tokens?date_from=0&limit=100''
   \<and> momentFrom 129600000 = 0
   \<and> initialTokensUrl sample_format sample_client False 129600000 = ''https://iop/tokens?limit=100''
   \<and> momentFrom 172800000 = 172800000 - 86400000"
  using initialTokensUrl_scope
    [where format = sample_format and cl = sample_client and now = 129600000]
    initialTokensUrl_scope
    [where format = sample_format and cl = sample_client and now = 172800000]
  by (simp add: momentFrom_def sample_format_def sample_client_def string_of_nat.simps)

text \<open>
  The claim of C7 that \<open>date_from\<close> is 24 hours before the call fails for a call at noon
  of the second day of the epoch: \<open>date_from\<close> is the time 0, which is 36 hours before.
\<close>

theorem date_from_counterexample:
  "momentFrom 129600000 \<noteq> 129600000 - 86400000
   \<and> initialTokensUrl sample_format sample_client True 129600000
       \<noteq> tokens_endpoint sample_client @ ''?date_from=''
            @ sample_format (129600000 - 86400000) @ ''&limit=100''"
  by (simp add: initialTokensUrl_def momentFrom_def sample_format_def sample_client_def
        string_of_nat.simps)

subsection \<open>The first delta run of an endpoint\<close>

text \<open>
  C9. For an endpoint with no \<open>lastPatchJobOn\<close>, the status notifications are asked for
  from the current time on. With a storage whose notifications were all recorded before
  that time, no charge point is selected for them, so that the charge points of a delta
  run are those of the failures of the previous job, of which there are none when the
  endpoint has no result of a previous job.
\<close>

theorem first_delta_run_baseline:
  "lastPatchJobOn ocpiEndpoint = None \<Longrightarrow>
   getChargeBoxIDsWithNewStatusNotifications query now ocpiEndpoint
     = (if dr_count (query now) > 0 then map sn_chargeBoxID (dr_result (query now)) else [])
   \<and> ((\<forall>n \<in> set stored. sn_timestamp n < now) \<longrightarrow>
        getChargeBoxIDsWithNewStatusNotifications (getStatusNotifications stored) now ocpiEndpoint = []
      \<and> chargeBoxIDsToProcess (getStatusNotifications stored) now ocpiEndpoint False
          = uniq (getChargeBoxIDsInFailure ocpiEndpoint)
      \<and> (lastPatchJobResult ocpiEndpoint = None \<longrightarrow>
            chargeBoxIDsToProcess (getStatusNotifications stored) now ocpiEndpoint False = []))"
proof -
  assume none: "lastPatchJobOn ocpiEndpoint = None"
  have old: "filter (\<lambda>n. now \<le> sn_timestamp n) stored = []"
    if "\<forall>n \<in> set stored. sn_timestamp n < now"
    using that by (induction stored) auto
  show ?thesis
    using none old
    by (auto simp: getChargeBoxIDsWithNewStatusNotifications_def getStatusNotifications_def
          chargeBoxIDsToProcess_def getChargeBoxIDsInFailure_def Let_def)
qed

theorem first_delta_run_baseline_witness:
  "lastPatchJobOn first_endpoint = None
   \<and> map sn_timestamp stored_notifications = [500, 1500]
   \<and> getChargeBoxIDsWithNewStatusNotifications (getStatusNotifications stored_notifications) 2000 first_endpoint = []
   \<and> chargeBoxIDsToProcess (getStatusNotifications stored_notifications) 2000 first_endpoint False = []"
proof -
  have none: "lastPatchJobOn first_endpoint = None"
    and nores: "lastPatchJobResult first_endpoint = None"
    by (simp_all add: first_endpoint_def)
  have old: "\<forall>n \<in> set stored_notifications. sn_timestamp n < 2000"
    and times: "map sn_timestamp stored_notifications = [500, 1500]"
    by (simp_all add: stored_notifications_def)
  show ?thesis
    using first_delta_run_baseline
      [OF none, where stored = stored_notifications and now = 2000
         and query = "getStatusNotifications stored_notifications"]
      none nores old times
    by blast
qed

subsection \<open>The lock of the status broadcast\<close>

lemma patchNotification_jobEvents: "list_all jobEvent (patchNotification loc r)"
  by (simp add: patchNotification_def)

lemma remote_jobEvents: "list_all jobEvent (map Remote calls)"
  by (induction calls) simp_all

lemma sendEVSEs_loop_jobEvents:
  "list_all jobEvent (snd (sendEVSEs_loop cl remote processAllEVSEs ids loc es sendResult))"
proof (induction es arbitrary: sendResult processAllEVSEs)
  case Nil
  show ?case by simp
next
  case (Cons evse rest)
  show ?case
    by (simp add: Let_def Cons.IH patchNotification_jobEvents remote_jobEvents)
qed

lemma sendLocations_loop_jobEvents:
  "list_all jobEvent (snd (sendLocations_loop cl remote processAllEVSEs ids locations sendResult))"
proof (induction locations arbitrary: sendResult processAllEVSEs)
  case Nil
  show ?case by simp
next
  case (Cons l rest)
  show ?case
    by (cases l) (simp_all add: Let_def Cons.IH sendEVSEs_loop_jobEvents split: option.splits)
qed

lemma sendEVSEStatuses_jobEvents:
  "list_all jobEvent (snd (snd (sendEVSEStatuses cl remote query allLocations startDate now ocpiEndpoint processAllEVSEs)))"
  by (cases allLocations)
     (simp_all add: sendEVSEStatuses_def Let_def sendLocations_loop_jobEvents split: prod.splits,
      metis sendLocations_loop_jobEvents snd_conv)


lemma pushLocations_jobEvents:
  "list_all jobEvent (snd (pushLocations client remote query allLocations startDate now ocpiEndpoint config))"
  by (cases client) (simp_all add: pushLocations_def sendEVSEStatuses_jobEvents split: prod.splits,
      metis sendEVSEStatuses_jobEvents snd_conv)

text \<open>
  C8. When no lock was obtained, \<open>processOCPIEndpoint\<close> does nothing: no event, and the
  endpoint is as before. When a lock was obtained, the events are those of the job,
  none of which is the release of a lock, followed by the release of the lock obtained:
  the lock is released after the job, whether the job returns early (endpoint not
  registered or inactive, in which case it makes no call), throws (no client, no
  locations) or runs \<open>sendEVSEStatuses\<close> to its end.
\<close>

theorem lock_released_on_every_path:
  "(ocpiLock = None \<longrightarrow>
      processOCPIEndpoint ocpiLock client remote query allLocations startDate now ocpiEndpoint config
        = (ocpiEndpoint, []))
   \<and> (ocpiLock = Some lock \<longrightarrow>
        snd (processOCPIEndpoint ocpiLock client remote query allLocations startDate now ocpiEndpoint config)
          = snd (pushLocations client remote query allLocations startDate now ocpiEndpoint config)
            @ [LockReleased lock]
      \<and> list_all jobEvent (snd (pushLocations client remote query allLocations startDate now ocpiEndpoint config))
      \<and> (registration ocpiEndpoint \<noteq> REGISTERED \<or> \<not> backgroundPatchJob ocpiEndpoint
           \<or> isl client \<or> isl allLocations \<longrightarrow>
          pushLocations client remote query allLocations startDate now ocpiEndpoint config
            = (ocpiEndpoint, []))
      \<and> (registration ocpiEndpoint = REGISTERED \<and> backgroundPatchJob ocpiEndpoint
           \<and> client = Inr cl \<longrightarrow>
          snd (pushLocations client remote query allLocations startDate now ocpiEndpoint config)
            = snd (snd (sendEVSEStatuses cl remote query allLocations startDate now ocpiEndpoint
                          (case config of Some b \<Rightarrow> b | None \<Rightarrow> False)))))"
proof -
  have early: "pushLocations client remote query allLocations startDate now ocpiEndpoint config
                 = (ocpiEndpoint, [])"
    if "registration ocpiEndpoint \<noteq> REGISTERED \<or> \<not> backgroundPatchJob ocpiEndpoint
          \<or> isl client \<or> isl allLocations"
    using that
    by (cases client; cases allLocations)
       (auto simp: pushLocations_def sendEVSEStatuses_def Let_def)
  have run: "snd (pushLocations client remote query allLocations startDate now ocpiEndpoint config)
        = snd (snd (sendEVSEStatuses cl remote query allLocations startDate now ocpiEndpoint
                      (case config of Some b \<Rightarrow> b | None \<Rightarrow> False)))"
    if "registration ocpiEndpoint = REGISTERED" "backgroundPatchJob ocpiEndpoint" "client = Inr cl"
    using that by (simp add: pushLocations_def split: prod.splits)
  show ?thesis
    using early run pushLocations_jobEvents [of client remote query allLocations startDate now ocpiEndpoint config]
    by (simp add: processOCPIEndpoint_def split: prod.splits)
qed

text \<open>
  Without a lock nothing happens; with the lock of an endpoint that is not registered
  the only event is the release; with the lock of the endpoint that failed for \<open>A\<close> and
  has a new notification for \<open>B\<close>, the two patches of a delta run come before the release.
\<close>

theorem lock_released_on_every_path_witness:
  "processOCPIEndpoint None (Inr sample_client) remote_ok (getStatusNotifications stored_notifications)
      (Inr sample_locations) 5000 5001 delta_endpoint None = (delta_endpoint, [])
   \<and> snd (processOCPIEndpoint (Some ''ep1'') (Inr sample_client) remote_ok
            (getStatusNotifications stored_notifications) (Inr sample_locations) 5000 5001 new_endpoint None)
       = [LockReleased ''ep1'']
   \<and> map jobEvent (snd (processOCPIEndpoint (Some ''ep1'') (Inr sample_client) remote_ok
            (getStatusNotifications stored_notifications) (Inr sample_locations) 5000 5001 delta_endpoint None))
       = [True, True, False]"
proof -
  have new: "registration new_endpoint \<noteq> REGISTERED"
    by (simp add: new_endpoint_def)
  have delta: "registration delta_endpoint = REGISTERED" "backgroundPatchJob delta_endpoint"
    by (simp_all add: delta_endpoint_def first_endpoint_def)
  have run: "map jobEvent (snd (snd (sendEVSEStatuses sample_client remote_ok
              (getStatusNotifications stored_notifications) (Inr sample_locations) 5000 5001
              delta_endpoint False))) = [True, True]"
    by (simp add: sendEVSEStatuses_def chargeBoxIDsToProcess_def getChargeBoxIDsInFailure_def
      getChargeBoxIDsWithNewStatusNotifications_def getStatusNotifications_def
      stored_notifications_def delta_endpoint_def first_endpoint_def sample_locations_def
      evse_A_def evse_B_def evse_C_def Let_def emptySendResult_def patchEVSEStatus_def
      remote_ok_def recordPatch_def patchNotification_def)
  show ?thesis
    using lock_released_on_every_path
        [where ocpiLock = None and client = "Inr sample_client" and remote = remote_ok
           and query = "getStatusNotifications stored_notifications"
           and allLocations = "Inr sample_locations" and startDate = 5000 and now = 5001
           and ocpiEndpoint = delta_endpoint and config = None]
      lock_released_on_every_path
        [where ocpiLock = "Some ''ep1''" and lock = "''ep1''" and client = "Inr sample_client"
           and remote = remote_ok and query = "getStatusNotifications stored_notifications"
           and allLocations = "Inr sample_locations" and startDate = 5000 and now = 5001
           and ocpiEndpoint = new_endpoint and config = None]
      lock_released_on_every_path
        [where ocpiLock = "Some ''ep1''" and lock = "''ep1''" and client = "Inr sample_client"
           and cl = sample_client
           and remote = remote_ok and query = "getStatusNotifications stored_notifications"
           and allLocations = "Inr sample_locations" and startDate = 5000 and now = 5001
           and ocpiEndpoint = delta_endpoint and config = None]
      new delta run
    by simp
qed

subsection \<open>Pagination of pullTokens\<close>

lemma pullTokens_page_served:
  "servesPage cl remote p \<Longrightarrow>
   pullTokens_page cl remote updateToken (page_url p) sendResult =
     (case page_next p of
        None \<Rightarrow> (Inl (Inr (updateTokens updateToken (page_tokens p) sendResult)), pageEvents cl p)
      | Some nextUrl \<Rightarrow>
          if nextUrl \<noteq> [] \<and> nextUrl \<noteq> page_url p
          then (Inr (nextUrl, updateTokens updateToken (page_tokens p) sendResult), pageEvents cl p)
          else (Inl (Inr (updateTokens updateToken (page_tokens p) sendResult)), pageEvents cl p))"
  by (auto simp: servesPage_def pullTokens_page_def pageEvents_def Let_def split: option.splits)

lemma pullTokens_loop_pages:
  "servesPages cl remote pages \<Longrightarrow>
   pullTokens_loop cl remote updateToken (page_url (hd pages)) sendResult evs =
     Some (Inr (foldl (\<lambda>r p. updateTokens updateToken (page_tokens p) r) sendResult pages),
           evs @ concat (map (pageEvents cl) pages))"
proof (induction cl remote pages arbitrary: sendResult evs rule: servesPages.induct)
  case (1 cl remote)
  then show ?case by simp
next
  case (2 cl remote p)
  then show ?case
    by (subst pullTokens_loop.simps) (auto simp: pullTokens_page_served)
next
  case (3 cl remote p q ps)
  from "3.prems" have served: "servesPage cl remote p"
    and link: "page_next p = Some (page_url q)" "page_url q \<noteq> []" "page_url q \<noteq> page_url p"
    and rest: "servesPages cl remote (q # ps)"
    by simp_all
  show ?case
    by (subst pullTokens_loop.simps)
       (simp add: pullTokens_page_served [OF served] link "3.IH" [OF rest, simplified])
qed


lemma remoteCalls_append: "remoteCalls (xs @ ys) = remoteCalls xs @ remoteCalls ys"
  by (induction xs rule: remoteCalls.induct) simp_all

lemma remoteCalls_Remote: "remoteCalls (map Remote calls) = calls"
  by (induction calls) simp_all

lemma remoteCalls_UpdateToken: "remoteCalls (map UpdateToken tokens) = []"
  by (induction tokens) simp_all

lemma remoteCalls_pages:
  "remoteCalls (concat (map (pageEvents cl) pages)) = map (\<lambda>p. tokensRequest cl (page_url p)) pages"
  by (induction pages) (simp_all add: remoteCalls_append pageEvents_def remoteCalls_UpdateToken)

lemma servesPage_same_url:
  "servesPage cl remote p \<Longrightarrow> servesPage cl remote q \<Longrightarrow> page_url p = page_url q \<Longrightarrow>
   page_next p = page_next q"
  by (auto simp: servesPage_def split: option.splits)

lemma servesPages_length:
  "servesPages cl remote xs \<Longrightarrow> servesPages cl remote ys \<Longrightarrow>
   page_url (hd xs) = page_url (hd ys) \<Longrightarrow> length xs = length ys"
proof (induction cl remote xs arbitrary: ys rule: servesPages.induct)
  case (1 cl remote)
  then show ?case by simp
next
  case (2 cl remote p)
  show ?case
  proof (cases "(cl, remote, ys)" rule: servesPages.cases)
    case (1 cl' remote')
    with "2.prems" show ?thesis by simp
  next
    case (2 cl' remote' q)
    then show ?thesis by simp
  next
    case (3 cl' remote' q r rs)
    with "2.prems" servesPage_same_url [of cl remote p q] show ?thesis
      by auto
  qed
next
  case (3 cl remote p q ps)
  show ?case
  proof (cases "(cl, remote, ys)" rule: servesPages.cases)
    case (1 cl' remote')
    with "3.prems" show ?thesis by simp
  next
    case (2 cl' remote' r)
    with "3.prems" servesPage_same_url [of cl remote p r] show ?thesis
      by auto
  next
    case (3 cl' remote' r s rs)
    with "3.prems" servesPage_same_url [of cl remote p r]
    have "servesPages cl remote (s # rs)" "page_url (hd (q # ps)) = page_url (hd (s # rs))"
      by auto
    with "3.IH" [of "s # rs"] "3.prems" have "length (q # ps) = length (s # rs)"
      by simp
    with 3 show ?thesis by simp
  qed
qed

lemma servesPages_suffix:
  "servesPages cl remote (us @ zs) \<Longrightarrow> zs \<noteq> [] \<Longrightarrow> servesPages cl remote zs"
proof (induction us)
  case Nil
  then show ?case by simp
next
  case (Cons u us)
  then show ?case
    by (cases "us @ zs") auto
qed

lemma servesPages_distinct:
  "servesPages cl remote pages \<Longrightarrow> distinct (map page_url pages)"
proof (induction pages)
  case Nil
  then show ?case by simp
next
  case (Cons p ps)
  show ?case
  proof (cases "ps = []")
    case True
    then show ?thesis by simp
  next
    case False
    with Cons.prems servesPages_suffix [of cl remote "[p]" ps] have rest: "servesPages cl remote ps"
      by simp
    have "page_url p \<notin> set (map page_url ps)"
    proof
      assume "page_url p \<in> set (map page_url ps)"
      then obtain r where r: "r \<in> set ps" "page_url r = page_url p"
        by auto
      then obtain us vs where split: "ps = us @ r # vs"
        by (meson split_list)
      with rest servesPages_suffix [of cl remote us "r # vs"] have "servesPages cl remote (r # vs)"
        by simp
      with Cons.prems r servesPages_length [of cl remote "p # ps" "r # vs"]
      have "length (p # ps) = length (r # vs)"
        by simp
      with split show False by simp
    qed
    with Cons.IH [OF rest] show ?thesis by simp
  qed
qed

text \<open>
  C5. When the partner serves a finite sequence of pages from the first URL on,
  \<open>pullTokens\<close> ends, without an exception, and its events are, page after page in the
  order of the sequence, the GET of the page followed by the updates of the tokens of the
  page: every page is asked for once, and after the tokens of the page before it, and no
  URL is asked for twice. The loop stops at the page without a next link, with an empty
  one, or with its own URL as the next link.
\<close>

theorem pullTokens_visits_each_page_once:
  "servesPages cl remote pages \<Longrightarrow>
   page_url (hd pages) = initialTokensUrl format cl partial now \<Longrightarrow>
   pullTokens cl remote updateToken format now partial =
     Some (Inr (foldl (\<lambda>r p. updateTokens updateToken (page_tokens p) r)
                  \<lparr> success = 0, failure = 0, total = 0, logs = [] \<rparr> pages),
           concat (map (pageEvents cl) pages))
   \<and> remoteCalls (concat (map (pageEvents cl) pages))
       = map (\<lambda>p. tokensRequest cl (page_url p)) pages
   \<and> distinct (map page_url pages)"
  using pullTokens_loop_pages [of cl remote pages updateToken _ "[]"]
    servesPages_distinct [of cl remote pages]
  by (simp add: pullTokens_def remoteCalls_pages)

lemma sample_pages_served: "servesPages sample_client remote_pages [page_1, page_2]"
  by (simp add: servesPage_def remote_pages_def page_1_def page_2_def tokensRequest_def)

theorem pullTokens_visits_each_page_once_witness:
  "servesPages sample_client remote_pages [page_1, page_2]
   \<and> page_url (hd [page_1, page_2]) = initialTokensUrl sample_format sample_client False 0
   \<and> map_option snd (pullTokens sample_client remote_pages update_but_T2 sample_format 0 False)
       = Some [Remote (tokensRequest sample_client ''https://iop/tokens?limit=100''),
               UpdateToken \<lparr> token_uid = ''T1'', token_auth_id = ''U1'' \<rparr>,
               UpdateToken \<lparr> token_uid = ''T2'', token_auth_id = ''U2'' \<rparr>,
               Remote (tokensRequest sample_client ''https://iop/tokens?offset=100''),
               UpdateToken \<lparr> token_uid = ''T3'', token_auth_id = ''U3'' \<rparr>]"
proof -
  have first: "page_url (hd [page_1, page_2]) = initialTokensUrl sample_format sample_client False 0"
    by (simp add: page_1_def initialTokensUrl_def sample_client_def)
  note run = pullTokens_visits_each_page_once
      [OF sample_pages_served first, where updateToken = update_but_T2, THEN conjunct1]
  show ?thesis
  proof (intro conjI)
    show "servesPages sample_client remote_pages [page_1, page_2]"
      by (rule sample_pages_served)
    show "page_url (hd [page_1, page_2]) = initialTokensUrl sample_format sample_client False 0"
      by (rule first)
    show "map_option snd (pullTokens sample_client remote_pages update_but_T2 sample_format 0 False)
       = Some [Remote (tokensRequest sample_client ''https://iop/tokens?limit=100''),
               UpdateToken \<lparr> token_uid = ''T1'', token_auth_id = ''U1'' \<rparr>,
               UpdateToken \<lparr> token_uid = ''T2'', token_auth_id = ''U2'' \<rparr>,
               Remote (tokensRequest sample_client ''https://iop/tokens?offset=100''),
               UpdateToken \<lparr> token_uid = ''T3'', token_auth_id = ''U3'' \<rparr>]"
      unfolding run by (simp add: pageEvents_def page_1_def page_2_def)
  qed
qed

text \<open>
  Without such a sequence the loop need not end: with two pages that link to each other,
  \<open>pullTokens\<close> does not return.
\<close>

lemma pullTokens_page_cycle:
  "\<exists>nextUrl es. pullTokens_page cl remote_cycle updateToken tokensUrl sendResult
      = (Inr (nextUrl, sendResult), es)"
  by (auto simp: pullTokens_page_def remote_cycle_def tokensRequest_def Let_def)

lemma pullTokens_loop_cycle:
  "pullTokens_loop cl remote_cycle updateToken tokensUrl sendResult evs = None"
proof -
  have "remote \<noteq> remote_cycle"
    if "pullTokens_loop cl remote updateToken tokensUrl sendResult evs = Some y" for remote y
  proof (rule pullTokens_loop.raw_induct
      [where P = "\<lambda>cl remote updateToken tokensUrl sendResult evs y. remote \<noteq> remote_cycle",
        OF _ that])
    fix loop cl remote updateToken tokensUrl sendResult evs y
    assume IH: "\<And>cl remote updateToken tokensUrl sendResult evs y.
        loop cl remote updateToken tokensUrl sendResult evs = Some y \<Longrightarrow> remote \<noteq> remote_cycle"
      and body: "(case pullTokens_page cl remote updateToken tokensUrl sendResult of
                    (Inl final, es) \<Rightarrow> Some (final, evs @ es)
                  | (Inr (nextUrl, sendResult'), es) \<Rightarrow>
                      loop cl remote updateToken nextUrl sendResult' (evs @ es)) = Some y"
    show "remote \<noteq> remote_cycle"
    proof
      assume cyc: "remote = remote_cycle"
      obtain nextUrl es where
        "pullTokens_page cl remote_cycle updateToken tokensUrl sendResult = (Inr (nextUrl, sendResult), es)"
        using pullTokens_page_cycle by blast
      with body cyc have "loop cl remote_cycle updateToken nextUrl sendResult (evs @ es) = Some y"
        by simp
      from IH [OF this] show False by simp
    qed
  qed
  then show ?thesis
    by (cases "pullTokens_loop cl remote_cycle updateToken tokensUrl sendResult evs") auto
qed

subsection \<open>Counters of the batch jobs\<close>

lemma recordCheck_counters:
  "total (recordCheck what oid r result) = total result
   \<and> success (recordCheck what oid r result) + failure (recordCheck what oid r result)
       = success result + failure result + 1"
  by (cases r) (auto simp: recordCheck_def split: bool.splits)

text \<open>
  The sweeps count every item in \<open>total\<close>, count every item checked as a success or as
  a failure, and check every item whatever the outcome for the items before it: the
  calls of the sweep are the calls of the check of each item, in order.
\<close>

lemma checkCdrs_loop_counters:
  "total (fst (checkCdrs_loop cl remote now transactions result)) = total result + length transactions
   \<and> success (fst (checkCdrs_loop cl remote now transactions result))
       + failure (fst (checkCdrs_loop cl remote now transactions result))
       = success result + failure result + length transactions
   \<and> remoteCalls (snd (snd (checkCdrs_loop cl remote now transactions result)))
       = concat (map (\<lambda>t. snd (snd (checkCdr cl remote now t))) transactions)"
  by (induction transactions arbitrary: result)
     (simp_all add: Let_def recordCheck_counters remoteCalls_append remoteCalls_Remote)

lemma checkSessions_loop_counters:
  "total (fst (checkSessions_loop cl remote now transactions result)) = total result + length transactions
   \<and> success (fst (checkSessions_loop cl remote now transactions result))
       + failure (fst (checkSessions_loop cl remote now transactions result))
       \<le> success result + failure result + length transactions
   \<and> remoteCalls (snd (snd (checkSessions_loop cl remote now transactions result)))
       = concat (map (\<lambda>t. snd (snd (checkSession cl remote now t)))
           (filter (\<lambda>t. case stop t of None \<Rightarrow> False | Some st \<Rightarrow> stop_timestamp st \<noteq> None)
              transactions))"
proof (induction transactions arbitrary: result)
  case Nil
  show ?case by simp
next
  case (Cons t rest)
  show ?case
  proof (cases "case stop t of None \<Rightarrow> False | Some st \<Rightarrow> stop_timestamp st \<noteq> None")
    case True
    let ?r = "(recordCheck ''Failure checking session for transaction:''
                 (string_of_nat (transaction_id t)) (fst (checkSession cl remote now t)) result)
               \<lparr> total := total (recordCheck ''Failure checking session for transaction:''
                 (string_of_nat (transaction_id t)) (fst (checkSession cl remote now t)) result) + 1 \<rparr>"
    from Cons.IH [of ?r] True show ?thesis
      using recordCheck_counters [of "''Failure checking session for transaction:''"
               "string_of_nat (transaction_id t)" "fst (checkSession cl remote now t)" result]
      by (simp add: Let_def remoteCalls_append remoteCalls_Remote)
  next
    case False
    from Cons.IH [of "result \<lparr> total := total result + 1 \<rparr>"] False show ?thesis
      by (simp add: Let_def)
  qed
qed

lemma checkLocations_loop_counters:
  "total (fst (checkLocations_loop cl remote locations result)) = total result + length locations
   \<and> success (fst (checkLocations_loop cl remote locations result))
       + failure (fst (checkLocations_loop cl remote locations result))
       \<le> success result + failure result + length locations
   \<and> remoteCalls (snd (checkLocations_loop cl remote locations result))
       = concat (map (\<lambda>l. case l of None \<Rightarrow> [] | Some loc \<Rightarrow> snd (checkLocation cl remote loc)) locations)"
proof (induction locations arbitrary: result)
  case Nil
  show ?case by simp
next
  case (Cons l rest)
  show ?case
  proof (cases l)
    case None
    from Cons.IH [of "result \<lparr> total := total result + 1 \<rparr>"] None show ?thesis
      by simp
  next
    case (Some loc)
    let ?r = "(recordCheck ''Failure checking location '' (location_id loc)
                  (fst (checkLocation cl remote loc)) result)
               \<lparr> total := total (recordCheck ''Failure checking location '' (location_id loc)
                  (fst (checkLocation cl remote loc)) result) + 1 \<rparr>"
    from Cons.IH [of ?r] Some show ?thesis
      using recordCheck_counters [of "''Failure checking location ''" "location_id loc"
               "fst (checkLocation cl remote loc)" result]
      by (simp add: Let_def remoteCalls_append remoteCalls_Remote)
  qed
qed

lemma updateTokens_counters:
  "total (updateTokens updateToken tokens sendResult) = total sendResult
   \<and> success (updateTokens updateToken tokens sendResult) + failure (updateTokens updateToken tokens sendResult)
       = success sendResult + failure sendResult + length tokens"
  by (induction tokens arbitrary: sendResult) (auto split: option.splits)

lemma pages_counters:
  "total (foldl (\<lambda>r p. updateTokens updateToken (page_tokens p) r) sendResult pages) = total sendResult
   \<and> success (foldl (\<lambda>r p. updateTokens updateToken (page_tokens p) r) sendResult pages)
       + failure (foldl (\<lambda>r p. updateTokens updateToken (page_tokens p) r) sendResult pages)
       = success sendResult + failure sendResult + length (concat (map page_tokens pages))"
proof (induction pages arbitrary: sendResult)
  case Nil
  show ?case by simp
next
  case (Cons p ps)
  show ?case
    using Cons.IH [of "updateTokens updateToken (page_tokens p) sendResult"]
      updateTokens_counters [of updateToken "page_tokens p" sendResult]
    by simp
qed

text \<open>
  Whatever the pages, \<open>pullTokens\<close> counts every token as a success or as a failure and
  leaves \<open>total\<close> at zero.
\<close>

lemma pullTokens_never_counts_total:
  assumes "servesPages cl remote pages"
    and "page_url (hd pages) = initialTokensUrl format cl partial now"
  shows "\<exists>r evs. pullTokens cl remote updateToken format now partial = Some (Inr r, evs)
           \<and> total r = 0
           \<and> success r + failure r = length (concat (map page_tokens pages))"
  using pullTokens_loop_pages [OF assms(1), of updateToken
          "\<lparr> success = 0, failure = 0, total = 0, logs = [] \<rparr>" "[]"]
    pages_counters [of updateToken "\<lparr> success = 0, failure = 0, total = 0, logs = [] \<rparr>" pages]
    assms(2)
  by (simp add: pullTokens_def)

text \<open>
  C2 fails for \<open>pullTokens\<close>, whose loop never counts \<open>total\<close>. With the two sample pages
  and an update that fails for the second of the three tokens, the third token is still
  updated and the job ends with two successes and one failure, but with a total of 0.
\<close>

theorem pullTokens_total_stays_zero:
  "map_option fst (pullTokens sample_client remote_pages update_but_T2 sample_format 0 False)
     = Some (Inr \<lparr> success = 2, failure = 1, total = 0,
                   logs = [''Token T1 successfully updated'',
                           ''Failure updating token:T2:no user'',
                           ''Token T3 successfully updated''] \<rparr>)"
proof -
  have first: "initialTokensUrl sample_format sample_client False 0 = page_url (hd [page_1, page_2])"
    by (simp add: page_1_def initialTokensUrl_def sample_client_def)
  show ?thesis
    unfolding pullTokens_def first pullTokens_loop_pages [OF sample_pages_served]
    by (simp add: page_1_def page_2_def update_but_T2_def)
qed

subsection \<open>The EVSEs of a status broadcast\<close>

lemma set_uniq: "set (uniq xs) = set xs"
  by (induction xs) auto

lemma distinct_uniq: "distinct (uniq xs)"
  by (induction xs) (auto simp: set_uniq)

lemma remoteCalls_patchNotification: "remoteCalls (patchNotification loc r) = []"
  by (simp add: patchNotification_def)

lemma patchEVSEStatus_calls:
  "location_id loc \<noteq> [] \<Longrightarrow> uid evse \<noteq> [] \<Longrightarrow>
   snd (patchEVSEStatus cl remote (location_id loc) (uid evse) (evse_status evse))
     = patchRequests cl (loc, evse)"
  by (simp add: patchEVSEStatus_def patchRequests_def Let_def split: option.splits)

lemma recordPatch_counters:
  "total (recordPatch loc evse r sendResult) = total sendResult
   \<and> success (recordPatch loc evse r sendResult) + failure (recordPatch loc evse r sendResult)
       = success sendResult + failure sendResult + 1"
  by (cases r) (simp_all add: recordPatch_def)

lemma sendEVSEs_loop_taken:
  "total (fst (sendEVSEs_loop cl remote processAllEVSEs ids loc es sendResult))
     = total sendResult + length es
   \<and> success (fst (sendEVSEs_loop cl remote processAllEVSEs ids loc es sendResult))
       + failure (fst (sendEVSEs_loop cl remote processAllEVSEs ids loc es sendResult))
       = success sendResult + failure sendResult
         + length (filter (taken processAllEVSEs ids) (map (Pair loc) es))
   \<and> remoteCalls (snd (sendEVSEs_loop cl remote processAllEVSEs ids loc es sendResult))
       = concat (map (patchRequests cl) (filter (taken processAllEVSEs ids) (map (Pair loc) es)))"
proof (induction es arbitrary: sendResult)
  case Nil
  show ?case by simp
next
  case (Cons evse rest)
  let ?counted = "sendResult \<lparr> total := total sendResult + 1 \<rparr>"
  show ?case
  proof (cases "taken processAllEVSEs ids (loc, evse)")
    case True
    let ?patched = "recordPatch loc evse
        (fst (patchEVSEStatus cl remote (location_id loc) (uid evse) (evse_status evse))) ?counted"
    from True have ids: "processAllEVSEs \<or> chargeBoxId evse \<in> set ids"
      and lid: "location_id loc \<noteq> []" and u: "uid evse \<noteq> []"
      by (simp_all add: taken_def)
    have step: "sendEVSEs_loop cl remote processAllEVSEs ids loc (evse # rest) sendResult
        = (fst (sendEVSEs_loop cl remote processAllEVSEs ids loc rest ?patched),
           map Remote (patchRequests cl (loc, evse)) @ patchNotification loc ?patched
             @ snd (sendEVSEs_loop cl remote processAllEVSEs ids loc rest ?patched))"
      using ids lid u patchEVSEStatus_calls [OF lid u, of cl remote]
      by (auto simp: Let_def)
    show ?thesis
      unfolding step
      using Cons.IH [of ?patched] True
        recordPatch_counters [of loc evse
          "fst (patchEVSEStatus cl remote (location_id loc) (uid evse) (evse_status evse))" ?counted]
      by (simp add: remoteCalls_append remoteCalls_Remote remoteCalls_patchNotification)
  next
    case False
    then have step: "sendEVSEs_loop cl remote processAllEVSEs ids loc (evse # rest) sendResult
        = sendEVSEs_loop cl remote processAllEVSEs ids loc rest ?counted"
      by (auto simp: taken_def Let_def)
    show ?thesis
      unfolding step using Cons.IH [of ?counted] False by simp
  qed
qed

lemma sendLocations_loop_taken:
  "total (fst (sendLocations_loop cl remote processAllEVSEs ids locations sendResult))
     = total sendResult + length (allEVSEs locations)
   \<and> success (fst (sendLocations_loop cl remote processAllEVSEs ids locations sendResult))
       + failure (fst (sendLocations_loop cl remote processAllEVSEs ids locations sendResult))
       = success sendResult + failure sendResult
         + length (filter (taken processAllEVSEs ids) (allEVSEs locations))
   \<and> remoteCalls (snd (sendLocations_loop cl remote processAllEVSEs ids locations sendResult))
       = concat (map (patchRequests cl) (filter (taken processAllEVSEs ids) (allEVSEs locations)))"
proof (induction locations arbitrary: sendResult)
  case Nil
  show ?case by (simp add: allEVSEs_def)
next
  case (Cons l rest)
  show ?case
  proof (cases l)
    case None
    with Cons.IH [of sendResult] show ?thesis by (simp add: allEVSEs_def)
  next
    case (Some loc)
    show ?thesis
    proof (cases "evses loc")
      case None
      with Some Cons.IH [of sendResult] show ?thesis by (simp add: allEVSEs_def)
    next
      case (Some es)
      let ?here = "sendEVSEs_loop cl remote processAllEVSEs ids loc es sendResult"
      from \<open>l = Some loc\<close> Some Cons.IH [of "fst ?here"]
        sendEVSEs_loop_taken [of cl remote processAllEVSEs ids loc es sendResult]
      show ?thesis
        by (simp add: allEVSEs_def Let_def remoteCalls_append)
    qed
  qed
qed


text \<open>
  C1, as the code has it. The PATCH calls of \<open>sendEVSEStatuses\<close> are, in the order of the
  locations and of their EVSEs, those of the EVSEs taken that have a status; every EVSE
  is counted in \<open>total\<close>, and the EVSEs taken are the ones counted as a success or as a
  failure. In a delta run an EVSE is taken when its charge point is one of the charge
  points to process and its location id and its \<open>uid\<close> are not empty; in a full run, when
  its location id and its \<open>uid\<close> are not empty. The charge points to process of a delta
  run are, without duplicates, those in failure in the last job result of the endpoint
  and those of the status notifications recorded since \<open>lastPatchJobOn\<close>.
\<close>

theorem sendEVSEStatuses_takes:
  "remoteCalls (snd (snd (sendEVSEStatuses cl remote query (Inr locations) startDate now ocpiEndpoint full)))
     = concat (map (patchRequests cl)
         (filter (taken full (chargeBoxIDsToProcess query now ocpiEndpoint full)) (allEVSEs locations)))
   \<and> (\<exists>r. fst (sendEVSEStatuses cl remote query (Inr locations) startDate now ocpiEndpoint full) = Inr r
          \<and> total r = length (allEVSEs locations)
          \<and> success r + failure r
              = length (filter (taken full (chargeBoxIDsToProcess query now ocpiEndpoint full))
                  (allEVSEs locations)))
   \<and> (taken False ids le \<longleftrightarrow>
        chargeBoxId (snd le) \<in> set ids \<and> location_id (fst le) \<noteq> [] \<and> uid (snd le) \<noteq> [])
   \<and> (taken True ids le \<longleftrightarrow> location_id (fst le) \<noteq> [] \<and> uid (snd le) \<noteq> [])
   \<and> set (chargeBoxIDsToProcess query now ocpiEndpoint False)
       = set (getChargeBoxIDsInFailure ocpiEndpoint)
         \<union> set (getChargeBoxIDsWithNewStatusNotifications query now ocpiEndpoint)
   \<and> distinct (chargeBoxIDsToProcess query now ocpiEndpoint False)
   \<and> (lastPatchJobResult ocpiEndpoint = Some res \<and> last_chargeBoxIDsInFailure res = Some fails
        \<longrightarrow> getChargeBoxIDsInFailure ocpiEndpoint = fails)
   \<and> (lastPatchJobOn ocpiEndpoint = Some t
        \<longrightarrow> set (getChargeBoxIDsWithNewStatusNotifications (getStatusNotifications stored) now ocpiEndpoint)
            = sn_chargeBoxID ` {n \<in> set stored. t \<le> sn_timestamp n})"
proof -
  let ?ids = "chargeBoxIDsToProcess query now ocpiEndpoint full"
  let ?run = "sendLocations_loop cl remote full ?ids locations emptySendResult"
  have run: "sendEVSEStatuses cl remote query (Inr locations) startDate now ocpiEndpoint full
      = (Inr (fst ?run),
         ocpiEndpoint
           \<lparr> lastPatchJobOn := Some startDate,
             lastPatchJobResult := Some
               \<lparr> successNbr = success (fst ?run),
                 failureNbr = failure (fst ?run),
                 totalNbr = total (fst ?run),
                 last_chargeBoxIDsInFailure = Some (uniq (chargeBoxIDsInFailure (fst ?run))),
                 last_chargeBoxIDsInSuccess = uniq (chargeBoxIDsInSuccess (fst ?run)) \<rparr> \<rparr>,
         snd ?run)"
    by (simp add: sendEVSEStatuses_def Let_def split: prod.splits)
  note loop = sendLocations_loop_taken [of cl remote full ?ids locations emptySendResult]
  have calls: "remoteCalls (snd (snd (sendEVSEStatuses cl remote query (Inr locations) startDate now ocpiEndpoint full)))
     = concat (map (patchRequests cl) (filter (taken full ?ids) (allEVSEs locations)))"
    unfolding run using loop by simp
  have counts: "\<exists>r. fst (sendEVSEStatuses cl remote query (Inr locations) startDate now ocpiEndpoint full) = Inr r
          \<and> total r = length (allEVSEs locations)
          \<and> success r + failure r = length (filter (taken full ?ids) (allEVSEs locations))"
    unfolding run using loop by (simp add: emptySendResult_def)
  have found: "set (getChargeBoxIDsWithNewStatusNotifications (getStatusNotifications stored) now ocpiEndpoint)
            = sn_chargeBoxID ` {n \<in> set stored. t \<le> sn_timestamp n}"
    if "lastPatchJobOn ocpiEndpoint = Some t"
    using that
    by (auto simp: getChargeBoxIDsWithNewStatusNotifications_def getStatusNotifications_def Let_def
          filter_empty_conv)
  have fails: "getChargeBoxIDsInFailure ocpiEndpoint = fails"
    if "lastPatchJobResult ocpiEndpoint = Some res" "last_chargeBoxIDsInFailure res = Some fails"
    using that by (simp add: getChargeBoxIDsInFailure_def)
  show ?thesis
    using calls counts found fails
    by (simp add: taken_def chargeBoxIDsToProcess_def set_uniq distinct_uniq)
qed


text \<open>
  A delta run for the endpoint that failed for \<open>A\<close> at its last job, at 1000, with a
  notification for \<open>B\<close> at 1500 and an older one for \<open>C\<close>: of the EVSEs of \<open>A\<close>, \<open>B\<close> and
  \<open>C\<close>, those of \<open>A\<close> and \<open>B\<close> are patched.
\<close>

theorem sendEVSEStatuses_takes_witness:
  "chargeBoxIDsToProcess (getStatusNotifications stored_notifications) 5001 delta_endpoint False
     = [''A'', ''B'']
   \<and> map (chargeBoxId \<circ> snd) (allEVSEs sample_locations) = [''A'', ''B'', ''C'']
   \<and> map req_url (remoteCalls (snd (snd (sendEVSEStatuses sample_client remote_ok
        (getStatusNotifications stored_notifications) (Inr sample_locations) 5000 5001 delta_endpoint False))))
     = [''https://iop/locations/FR/SLF/site1/A*1'', ''https://iop/locations/FR/SLF/site1/B*1'']"
proof -
  have ids: "chargeBoxIDsToProcess (getStatusNotifications stored_notifications) 5001 delta_endpoint False
     = [''A'', ''B'']"
    by (simp add: chargeBoxIDsToProcess_def getChargeBoxIDsInFailure_def
          getChargeBoxIDsWithNewStatusNotifications_def getStatusNotifications_def
          stored_notifications_def delta_endpoint_def first_endpoint_def Let_def)
  have all: "allEVSEs sample_locations
     = [(\<lparr> location_id = ''site1'', location_name = ''Site 1'', evses = Some [evse_A, evse_B, evse_C] \<rparr>, evse_A),
        (\<lparr> location_id = ''site1'', location_name = ''Site 1'', evses = Some [evse_A, evse_B, evse_C] \<rparr>, evse_B),
        (\<lparr> location_id = ''site1'', location_name = ''Site 1'', evses = Some [evse_A, evse_B, evse_C] \<rparr>, evse_C)]"
    by (simp add: allEVSEs_def sample_locations_def)
  note calls = sendEVSEStatuses_takes
      [where cl = sample_client and remote = remote_ok
         and query = "getStatusNotifications stored_notifications"
         and locations = sample_locations and startDate = 5000 and now = 5001
         and ocpiEndpoint = delta_endpoint and full = False, THEN conjunct1]
  show ?thesis
  proof (intro conjI)
    show "chargeBoxIDsToProcess (getStatusNotifications stored_notifications) 5001 delta_endpoint False
       = [''A'', ''B'']"
      by (rule ids)
    show "map (chargeBoxId \<circ> snd) (allEVSEs sample_locations) = [''A'', ''B'', ''C'']"
      unfolding all by (simp add: evse_A_def evse_B_def evse_C_def)
    show "map req_url (remoteCalls (snd (snd (sendEVSEStatuses sample_client remote_ok
        (getStatusNotifications stored_notifications) (Inr sample_locations) 5000 5001 delta_endpoint False))))
     = [''https://iop/locations/FR/SLF/site1/A*1'', ''https://iop/locations/FR/SLF/site1/B*1'']"
      unfolding calls ids all
      by (simp add: taken_def patchRequests_def evseUrl_def sample_client_def
            evse_A_def evse_B_def evse_C_def)
  qed
qed

text \<open>
  The claim of C1 that the EVSEs patched are exactly those of the charge points to
  process, and all EVSEs in a full run, fails for an EVSE without \<open>uid\<close>: the only EVSE
  is one of the charge point \<open>A\<close>, which is to be processed, and neither the delta run nor
  the full run makes a call.
\<close>

theorem sendEVSEStatuses_blank_counterexample:
  "map (chargeBoxId \<circ> snd) (allEVSEs blank_locations) = [''A'']
   \<and> chargeBoxIDsToProcess (getStatusNotifications stored_notifications) 5001 delta_endpoint False
       = [''A'', ''B'']
   \<and> snd (snd (sendEVSEStatuses sample_client remote_ok (getStatusNotifications stored_notifications)
                (Inr blank_locations) 5000 5001 delta_endpoint False)) = []
   \<and> snd (snd (sendEVSEStatuses sample_client remote_ok (getStatusNotifications stored_notifications)
                (Inr blank_locations) 5000 5001 delta_endpoint True)) = []"
  by (simp add: sendEVSEStatuses_def chargeBoxIDsToProcess_def getChargeBoxIDsInFailure_def
      getChargeBoxIDsWithNewStatusNotifications_def getStatusNotifications_def
      stored_notifications_def delta_endpoint_def first_endpoint_def blank_locations_def
      evse_blank_def Let_def emptySendResult_def allEVSEs_def)

end
